theory Spec2Isabelle
  imports Complex_Main "HOL-Library.Sublist"
begin

section \<open>Data model of \<open>src/main.js\<close>\<close>

text \<open>
  The module keeps all of its state in top-level variables: \<open>playerState\<close>,
  \<open>enemyState\<close>, \<open>animationMap\<close>, \<open>playerAnimations\<close>, \<open>enemyAnimations\<close>, the two
  mixers, the two models and \<open>keys\<close>. The record \<open>world\<close> below collects them, together
  with the pending timers, and every function of the module becomes a function that
  takes a world and returns the new one.

  JavaScript numbers are modelled as real numbers (no rounding, no \<open>NaN\<close>, no
  infinities, no signed zero), and \<open>Math.sqrt\<close>, \<open>Math.sin\<close>, \<open>Math.cos\<close>, \<open>Math.atan2\<close>
  as the real functions they approximate. The renderer, the camera, the scene graph
  and the debug log are left out; the calls the module makes on the animation mixers
  and actions of the rendering library are recorded, in order, in the field
  \<open>playback\<close>.
\<close>

datatype role = IDLE | WALK | RUN | JUMP | ATTACK

datatype character = Player | Enemy

record vec3 =
  x :: real
  y :: real
  z :: real

record timed =
  duration :: real

text \<open>An animation clip delivered by the loader: \<open>clip.name\<close> and \<open>clip.duration\<close>.\<close>

record animationClip = timed +
  name :: string

text \<open>An entry \<open>{ clip: null, duration: 0 }\<close> of \<open>animationMap\<close>; \<open>None\<close> is \<open>null\<close>.\<close>

record mapEntry = timed +
  clip :: "animationClip option"

text \<open>The action object returned by \<open>mixer.clipAction(clip)\<close>.\<close>

datatype animationAction = ClipAction animationClip

datatype mixer = AnimationMixer character

datatype loopMode = LoopOnce | LoopRepeat

datatype repetitions = Unspecified | Infinity

text \<open>Calls on the rendering library's mixers and actions, addressed by character and key.\<close>

datatype libcall =
    StopAllAction character
  | UncacheRoot character
  | Update character real
  | SetLoop character role loopMode repetitions
  | SetClampWhenFinished character role bool
  | SetEffectiveWeight character role real
  | Reset character role
  | Play character role

text \<open>\<open>position\<close> and \<open>rotation\<close> are carried by the state objects and by the models alike.\<close>

record transform =
  position :: vec3
  rotation :: vec3

text \<open>
  The fields \<open>playerState\<close> and \<open>enemyState\<close> share. \<open>currentAnimation\<close> holds a role
  name or the string \<open>'NONE'\<close>, which is \<open>None\<close> here.
\<close>

record characterState = transform +
  velocity :: vec3
  currentAnimation :: "role option"
  moveSpeed :: real
  isAttacking :: bool

record playerState = characterState +
  runSpeed :: real
  rotationSpeed :: real
  isJumping :: bool
  jumpHeight :: real
  jumpSpeed :: real

record enemyState = characterState +
  attackDistance :: real
  followDistance :: real
  attackCooldown :: real

record keys =
  w :: bool
  a :: bool
  s :: bool
  d :: bool
  space :: bool
  shift :: bool
  f :: bool

text \<open>
  A pending \<open>setTimeout\<close> of \<open>performAttack\<close>: the delay in milliseconds and the closure's
  \<open>info\<close>, that is the character and the animations object it captured.
\<close>

record timer =
  delay :: real
  info_character :: character
  info_animations :: nat

text \<open>
  \<open>playerAnimations\<close> and \<open>enemyAnimations\<close> are references to objects: \<open>loadCustomModel\<close>
  replaces them by fresh objects while a timer closure may still hold the old one. The
  objects live in \<open>animObjects\<close>, the variables hold their addresses.
\<close>

record world =
  playerState :: playerState
  enemyState :: enemyState
  animationMap :: "character \<Rightarrow> role \<Rightarrow> mapEntry"
  animObjects :: "nat \<Rightarrow> role \<rightharpoonup> animationAction"
  nextObject :: nat
  playerAnimations :: nat
  enemyAnimations :: nat
  playerMixer :: "mixer option"
  enemyMixer :: "mixer option"
  playerModel :: "transform option"
  enemyModel :: "transform option"
  keys :: keys
  timers :: "timer list"
  playback :: "libcall list"

definition vec :: "real \<Rightarrow> real \<Rightarrow> real \<Rightarrow> vec3" where
  "vec px py pz = \<lparr>x = px, y = py, z = pz\<rparr>"

definition noEntry :: mapEntry where
  "noEntry = \<lparr>duration = 0, clip = None\<rparr>"

definition initialPlayerState :: playerState where
  "initialPlayerState =
     \<lparr>position = vec (-8) 0 (-8), rotation = vec 0 0 0, velocity = vec 0 0 0,
      currentAnimation = Some IDLE, moveSpeed = 5, isAttacking = False,
      runSpeed = 10, rotationSpeed = 3, isJumping = False, jumpHeight = 3, jumpSpeed = 5\<rparr>"

definition initialEnemyState :: enemyState where
  "initialEnemyState =
     \<lparr>position = vec 10 0 10, rotation = vec 0 0 0, velocity = vec 0 0 0,
      currentAnimation = Some IDLE, moveSpeed = 3, isAttacking = False,
      attackDistance = 2, followDistance = 15, attackCooldown = 0\<rparr>"

definition initialWorld :: world where
  "initialWorld =
     \<lparr>playerState = initialPlayerState, enemyState = initialEnemyState,
      animationMap = (\<lambda>ch r. noEntry),
      animObjects = (\<lambda>ref. Map.empty), nextObject = 2,
      playerAnimations = 0, enemyAnimations = 1,
      playerMixer = None, enemyMixer = None,
      playerModel = None, enemyModel = None,
      keys = \<lparr>w = False, a = False, s = False, d = False, space = False,
              shift = False, f = False\<rparr>,
      timers = [], playback = []\<rparr>"

text \<open>The \<open>info\<close> objects built at the head of each function, read off the world.\<close>

definition animationsRef :: "character \<Rightarrow> world \<Rightarrow> nat" where
  "animationsRef ch wd = (if ch = Player then playerAnimations wd else enemyAnimations wd)"

definition animations :: "character \<Rightarrow> world \<Rightarrow> role \<rightharpoonup> animationAction" where
  "animations ch wd = animObjects wd (animationsRef ch wd)"

definition info_mixer :: "character \<Rightarrow> world \<Rightarrow> mixer option" where
  "info_mixer ch wd = (if ch = Player then playerMixer wd else enemyMixer wd)"

definition info_currentAnimation :: "character \<Rightarrow> world \<Rightarrow> role option" where
  "info_currentAnimation ch wd =
     (if ch = Player then currentAnimation (playerState wd)
      else currentAnimation (enemyState wd))"

definition info_isAttacking :: "character \<Rightarrow> world \<Rightarrow> bool" where
  "info_isAttacking ch wd =
     (if ch = Player then isAttacking (playerState wd) else isAttacking (enemyState wd))"

definition set_currentAnimation :: "character \<Rightarrow> role option \<Rightarrow> world \<Rightarrow> world" where
  "set_currentAnimation ch v wd =
     (if ch = Player then wd\<lparr>playerState := (playerState wd)\<lparr>currentAnimation := v\<rparr>\<rparr>
      else wd\<lparr>enemyState := (enemyState wd)\<lparr>currentAnimation := v\<rparr>\<rparr>)"

definition set_isAttacking :: "character \<Rightarrow> bool \<Rightarrow> world \<Rightarrow> world" where
  "set_isAttacking ch v wd =
     (if ch = Player then wd\<lparr>playerState := (playerState wd)\<lparr>isAttacking := v\<rparr>\<rparr>
      else wd\<lparr>enemyState := (enemyState wd)\<lparr>isAttacking := v\<rparr>\<rparr>)"

definition call :: "libcall \<Rightarrow> world \<Rightarrow> world" where
  "call c wd = wd\<lparr>playback := playback wd @ [c]\<rparr>"

section \<open>Errors\<close>

text \<open>
  A method call or a property write on an object that is \<open>undefined\<close> raises a
  \<open>TypeError\<close> in JavaScript; the functions below return it as a value. A function
  that raises returns \<open>Inl\<close> and nothing else: the world an exception leaves behind is
  not modelled, and a run of the module ends at its first error.
\<close>

datatype error = TypeError

definition bindE :: "error + 'v \<Rightarrow> ('v \<Rightarrow> error + 'u) \<Rightarrow> error + 'u" where
  "bindE m k = (case m of Inl e \<Rightarrow> Inl e | Inr v \<Rightarrow> k v)"

text \<open>\<open>Array.prototype.forEach\<close> with a callback that updates a state and may raise.\<close>

fun forEach :: "('st \<Rightarrow> 'el \<Rightarrow> error + 'st) \<Rightarrow> 'el list \<Rightarrow> 'st \<Rightarrow> error + 'st" where
  "forEach body [] st = Inr st"
| "forEach body (c # cs) st = bindE (body st c) (forEach body cs)"

section \<open>Classification of animation clips\<close>

text \<open>
  Clip names are taken to be ASCII strings, on which \<open>String.prototype.toUpperCase\<close>
  maps the letters \<open>a\<close> to \<open>z\<close> and leaves every other character as it is.
  \<open>str_includes\<close> is \<open>String.prototype.includes\<close>: the keyword occurs as a contiguous
  substring.
\<close>

definition toUpperCase_char :: "char \<Rightarrow> char" where
  "toUpperCase_char c =
     (case map_of (zip ''abcdefghijklmnopqrstuvwxyz'' ''ABCDEFGHIJKLMNOPQRSTUVWXYZ'') c of
        Some u \<Rightarrow> u
      | None \<Rightarrow> c)"

definition toUpperCase :: "string \<Rightarrow> string" where
  "toUpperCase str = map toUpperCase_char str"

definition str_includes :: "string \<Rightarrow> string \<Rightarrow> bool" where
  "str_includes str k = sublist k str"

text \<open>
  The three assignments every branch of the classifiers makes:
  \<open>map.R.clip = clip; map.R.duration = clip.duration; animations.R = mixer.clipAction(clip)\<close>.
  The third calls a method of the character's mixer and raises when there is none.
\<close>

definition assignClip :: "character \<Rightarrow> role \<Rightarrow> animationClip \<Rightarrow> world \<Rightarrow> error + world" where
  "assignClip ch r c wd =
     (let wd1 = wd\<lparr>animationMap :=
                     (animationMap wd)(ch := (animationMap wd ch)(r := \<lparr>duration = duration c, clip = Some c\<rparr>))\<rparr>
      in case info_mixer ch wd1 of
           None \<Rightarrow> Inl TypeError
         | Some m \<Rightarrow>
             Inr (wd1\<lparr>animObjects :=
                        (animObjects wd1)(animationsRef ch wd1 := (animations ch wd1)(r \<mapsto> ClipAction c))\<rparr>))"

text \<open>
  The body of \<open>gltf.animations.forEach\<close> in the two success callbacks of the start-up
  \<open>loader.load\<close> (lines 205 to 236 for the player, 290 to 311 for the enemy; they differ
  only in the character they fill).
\<close>

definition loadCallback_clip :: "character \<Rightarrow> world \<Rightarrow> animationClip \<Rightarrow> error + world" where
  "loadCallback_clip ch wd c =
     (let name = toUpperCase (name c) in
      if (str_includes name ''IDLE'' \<or> str_includes name ''STOPPED'')
         \<and> clip (animationMap wd ch IDLE) = None
      then assignClip ch IDLE c wd
      else if (str_includes name ''ATTACK'' \<or> str_includes name ''SHOOT''
               \<or> str_includes name ''FIRE'')
              \<and> clip (animationMap wd ch ATTACK) = None
      then assignClip ch ATTACK c wd
      else if (str_includes name ''WALK'' \<or> str_includes name ''RUN'')
              \<and> clip (animationMap wd ch WALK) = None
      then assignClip ch WALK c wd
      else Inr wd)"

definition loadCallback_forEach :: "character \<Rightarrow> animationClip list \<Rightarrow> world \<Rightarrow> error + world" where
  "loadCallback_forEach ch gltf_animations wd = forEach (loadCallback_clip ch) gltf_animations wd"

text \<open>
  The body of \<open>gltf.animations.forEach\<close> in \<open>processModelAnimations\<close> (lines 961 to 1021),
  on the pair of the world and the local \<open>hasFoundValidAnimation\<close>.
\<close>

definition processModelAnimations_clip ::
  "character \<Rightarrow> world \<times> bool \<Rightarrow> animationClip \<Rightarrow> error + world \<times> bool" where
  "processModelAnimations_clip ch st c =
     (let wd = fst st; name = toUpperCase (name c) in
      if str_includes name ''IDLE'' \<or> str_includes name ''STOPPED''
      then bindE (assignClip ch IDLE c wd)
             (\<lambda>wd1. Inr (call (SetLoop ch IDLE LoopRepeat Unspecified) wd1, True))
      else if str_includes name ''WALK''
      then bindE (assignClip ch WALK c wd)
             (\<lambda>wd1. Inr (call (SetLoop ch WALK LoopRepeat Unspecified) wd1, True))
      else if str_includes name ''RUN'' \<or> str_includes name ''SPRINT''
      then bindE (assignClip ch RUN c wd)
             (\<lambda>wd1. Inr (call (SetLoop ch RUN LoopRepeat Unspecified) wd1, True))
      else if str_includes name ''JUMP'' \<or> str_includes name ''LEAP''
      then bindE (assignClip ch JUMP c wd)
             (\<lambda>wd1. Inr (call (SetClampWhenFinished ch JUMP True)
                           (call (SetLoop ch JUMP LoopOnce Unspecified) wd1), True))
      else if str_includes name ''ATTACK'' \<or> str_includes name ''SHOOT''
              \<or> str_includes name ''FIRE''
      then bindE (assignClip ch ATTACK c wd)
             (\<lambda>wd1. Inr (call (SetClampWhenFinished ch ATTACK True)
                           (call (SetLoop ch ATTACK LoopOnce Unspecified) wd1), True))
      else Inr st)"

text \<open>
  \<open>processModelAnimations\<close>: the loop, then \<open>info.mixer.stopAllAction()\<close> and the start
  of the idle action when one was found.
\<close>

definition processModelAnimations :: "animationClip list \<Rightarrow> character \<Rightarrow> world \<Rightarrow> error + world" where
  "processModelAnimations gltf_animations ch wd =
     bindE (forEach (processModelAnimations_clip ch) gltf_animations (wd, False)) (\<lambda>st.
       let wd1 = fst st; hasFoundValidAnimation = snd st in
       if hasFoundValidAnimation \<and> animations ch wd1 IDLE \<noteq> None
       then (case info_mixer ch wd1 of
               None \<Rightarrow> Inl TypeError
             | Some m \<Rightarrow>
                 Inr (set_currentAnimation ch (Some IDLE)
                        (call (Play ch IDLE) (call (StopAllAction ch) wd1))))
       else Inr wd1)"

text \<open>
  The specification's table of the classifier: the roles in the order it names, each
  with its keyword set, and the first role of that order whose keyword set a name matches.
\<close>

definition precedence :: "role list" where
  "precedence = [IDLE, WALK, RUN, JUMP, ATTACK]"

fun keywordSet :: "role \<Rightarrow> string list" where
  "keywordSet IDLE = [''IDLE'', ''STOPPED'']"
| "keywordSet WALK = [''WALK'']"
| "keywordSet RUN = [''RUN'', ''SPRINT'']"
| "keywordSet JUMP = [''JUMP'', ''LEAP'']"
| "keywordSet ATTACK = [''ATTACK'', ''SHOOT'', ''FIRE'']"

definition matches :: "role \<Rightarrow> animationClip \<Rightarrow> bool" where
  "matches r c = list_ex (str_includes (toUpperCase (name c))) (keywordSet r)"

definition clipNamed :: "string \<Rightarrow> real \<Rightarrow> animationClip" where
  "clipNamed n t = \<lparr>duration = t, name = n\<rparr>"

text \<open>The first role, in the order of \<open>precedence\<close>, whose keyword set the clip matches.\<close>

definition firstMatch :: "animationClip \<Rightarrow> role option" where
  "firstMatch c = find (\<lambda>r. matches r c) precedence"

text \<open>
  The table of the start-up callbacks, in the same form: three roles in their order,
  with \<open>RUN\<close> a keyword of \<open>WALK\<close>, and the first role of that order whose keyword set
  the clip matches and which has no clip yet.
\<close>

definition startupPrecedence :: "role list" where
  "startupPrecedence = [IDLE, ATTACK, WALK]"

fun startupKeywordSet :: "role \<Rightarrow> string list" where
  "startupKeywordSet IDLE = [''IDLE'', ''STOPPED'']"
| "startupKeywordSet ATTACK = [''ATTACK'', ''SHOOT'', ''FIRE'']"
| "startupKeywordSet WALK = [''WALK'', ''RUN'']"
| "startupKeywordSet RUN = []"
| "startupKeywordSet JUMP = []"

definition startupMatches :: "role \<Rightarrow> animationClip \<Rightarrow> bool" where
  "startupMatches r c = list_ex (str_includes (toUpperCase (name c))) (startupKeywordSet r)"

definition firstFree :: "character \<Rightarrow> world \<Rightarrow> animationClip \<Rightarrow> role option" where
  "firstFree ch wd c =
     find (\<lambda>r. startupMatches r c \<and> clip (animationMap wd ch r) = None) startupPrecedence"

section \<open>Requesting a role: \<open>setAnimation\<close>\<close>

text \<open>A call on \<open>info.animations[animationName]\<close>, recorded when the action exists.\<close>

definition onAction :: "character \<Rightarrow> role \<Rightarrow> libcall \<Rightarrow> world \<Rightarrow> error + world" where
  "onAction ch animationName c wd =
     (case animations ch wd animationName of
        None \<Rightarrow> Inl TypeError
      | Some act \<Rightarrow> Inr (call c wd))"

definition setAnimation :: "character \<Rightarrow> role \<Rightarrow> world \<Rightarrow> error + world" where
  "setAnimation ch animationName wd =
     (if animations ch wd animationName = None then Inr wd
      else if info_currentAnimation ch wd = Some animationName then Inr wd
      else
        bindE (Inr (if info_mixer ch wd \<noteq> None then call (StopAllAction ch) wd else wd)) (\<lambda>wd1.
        bindE (if animationName = ATTACK \<or> animationName = JUMP
               then bindE (onAction ch animationName (SetLoop ch animationName LoopOnce Unspecified) wd1)
                          (onAction ch animationName (SetClampWhenFinished ch animationName True))
               else onAction ch animationName (SetLoop ch animationName LoopRepeat Infinity) wd1) (\<lambda>wd2.
        bindE (onAction ch animationName (SetEffectiveWeight ch animationName 1) wd2) (\<lambda>wd3.
        bindE (onAction ch animationName (Reset ch animationName) wd3) (\<lambda>wd4.
        bindE (onAction ch animationName (Play ch animationName) wd4) (\<lambda>wd5.
        Inr (set_currentAnimation ch (Some animationName) wd5)))))))"

section \<open>Attack and jump\<close>

definition setTimeout :: "timer \<Rightarrow> world \<Rightarrow> world" where
  "setTimeout t wd = wd\<lparr>timers := timers wd @ [t]\<rparr>"

text \<open>
  \<open>performAttack\<close> builds \<open>info\<close> on entry, so the closure handed to \<open>setTimeout\<close> keeps
  the animations object that \<open>playerAnimations\<close> (or \<open>enemyAnimations\<close>) referred to then.
\<close>

definition performAttack :: "character \<Rightarrow> world \<Rightarrow> error + world" where
  "performAttack ch wd =
     (if animations ch wd ATTACK = None then Inr wd
      else
        bindE (setAnimation ch ATTACK (set_isAttacking ch True wd)) (\<lambda>wd1.
        let attackDuration =
              (if duration (animationMap wd ch ATTACK) > 0
               then duration (animationMap wd ch ATTACK) else 1.0)
        in Inr (setTimeout \<lparr>delay = attackDuration * 1000, info_character = ch,
                             info_animations = animationsRef ch wd\<rparr> wd1)))"

text \<open>The closure of \<open>setTimeout\<close> in \<open>performAttack\<close>, run when the timer expires.\<close>

definition attackTimeout :: "timer \<Rightarrow> world \<Rightarrow> error + world" where
  "attackTimeout t wd =
     (let wd1 = set_isAttacking (info_character t) False wd in
      if animObjects wd1 (info_animations t) IDLE \<noteq> None
      then setAnimation (info_character t) IDLE wd1
      else Inr wd1)"

text \<open>
  \<open>performJump\<close> is only ever called with \<open>'player'\<close> (line 366), and \<open>enemyState\<close> has
  neither \<open>isJumping\<close> nor \<open>jumpSpeed\<close>: the model is the function at \<open>'player'\<close>.
\<close>

definition performJump :: "world \<Rightarrow> error + world" where
  "performJump wd =
     (if isJumping (playerState wd) then Inr wd
      else
        let ps = playerState wd;
            wd1 = wd\<lparr>playerState :=
                       ps\<lparr>isJumping := True, velocity := (velocity ps)\<lparr>y := jumpSpeed ps\<rparr>\<rparr>\<rparr>
        in if animations Player wd1 JUMP \<noteq> None then setAnimation Player JUMP wd1
           else Inr wd1)"

section \<open>The player's tick: \<open>updatePlayer\<close>\<close>

text \<open>
  \<open>updatePlayer\<close> is cut into the blocks its comments name. The locals \<open>moving\<close> and
  \<open>running\<close> travel with the world from block to block. Every block runs after the
  check \<open>if (!playerModel) return\<close>; where a block reads the model, the branch for a
  missing model returns its argument.
\<close>

definition mapBoundary :: real where
  "mapBoundary = 25"

definition treeRadius :: real where
  "treeRadius = 0.7"

text \<open>Rotate with A/D keys, then store the current rotation (lines 510 to 519).\<close>

definition updatePlayer_rotate :: "real \<Rightarrow> world \<Rightarrow> world" where
  "updatePlayer_rotate deltaTime wd =
     (case playerModel wd of
        None \<Rightarrow> wd
      | Some pm \<Rightarrow>
          let ps = playerState wd;
              pm1 = (if a (keys wd)
                     then pm\<lparr>rotation := (rotation pm)\<lparr>y := y (rotation pm) + rotationSpeed ps * deltaTime\<rparr>\<rparr>
                     else pm);
              pm2 = (if d (keys wd)
                     then pm1\<lparr>rotation := (rotation pm1)\<lparr>y := y (rotation pm1) - rotationSpeed ps * deltaTime\<rparr>\<rparr>
                     else pm1)
          in wd\<lparr>playerModel := Some pm2,
                playerState := ps\<lparr>rotation := (rotation ps)\<lparr>y := y (rotation pm2)\<rparr>\<rparr>\<rparr>)"

text \<open>The role picked from \<open>moving\<close> and \<open>running\<close> (lines 537 to 548 and 598 to 606).\<close>

definition selectAnimation :: "bool \<Rightarrow> bool \<Rightarrow> world \<Rightarrow> error + world" where
  "selectAnimation moving running wd =
     (if moving then
        (if running \<and> animations Player wd RUN \<noteq> None then setAnimation Player RUN wd
         else if animations Player wd WALK \<noteq> None then setAnimation Player WALK wd
         else Inr wd)
      else if animations Player wd IDLE \<noteq> None then setAnimation Player IDLE wd
      else Inr wd)"

text \<open>Handle jumping (lines 521 to 553).\<close>

definition updatePlayer_jump :: "real \<Rightarrow> world \<Rightarrow> error + world \<times> bool \<times> bool" where
  "updatePlayer_jump deltaTime wd =
     (if isJumping (playerState wd) then
        let ps = playerState wd;
            ps1 = ps\<lparr>velocity := (velocity ps)\<lparr>y := y (velocity ps) - 9.8 * deltaTime\<rparr>\<rparr>;
            ps2 = ps1\<lparr>position := (position ps1)\<lparr>y := y (position ps1) + y (velocity ps1) * deltaTime\<rparr>\<rparr>
        in bindE
             (if y (position ps2) \<le> 0 then
                let ps3 = ps2\<lparr>position := (position ps2)\<lparr>y := 0\<rparr>,
                              velocity := (velocity ps2)\<lparr>y := 0\<rparr>,
                              isJumping := False\<rparr>;
                    wd3 = wd\<lparr>playerState := ps3\<rparr>
                in if w (keys wd) \<or> s (keys wd)
                   then bindE (selectAnimation True (shift (keys wd)) wd3)
                              (\<lambda>wd4. Inr (wd4, True, shift (keys wd)))
                   else bindE (selectAnimation False False wd3)
                              (\<lambda>wd4. Inr (wd4, False, False))
              else Inr (wd\<lparr>playerState := ps2\<rparr>, False, False))
             (\<lambda>(wd5, moving, running).
                Inr (wd5\<lparr>playerModel :=
                          map_option (\<lambda>pm. pm\<lparr>position := (position pm)\<lparr>y := y (position (playerState wd5))\<rparr>\<rparr>)
                            (playerModel wd5)\<rparr>,
                     moving, running))
      else Inr (wd, False, False))"

text \<open>Move forward/backward with W/S keys (lines 555 to 594).\<close>

definition updatePlayer_move :: "real \<Rightarrow> world \<times> bool \<times> bool \<Rightarrow> world \<times> bool \<times> bool" where
  "updatePlayer_move deltaTime fr =
     (case fr of (wd, moving0, running0) \<Rightarrow>
      case playerModel wd of
        None \<Rightarrow> fr
      | Some pm \<Rightarrow>
        if w (keys wd) \<or> s (keys wd) then
          let ps = playerState wd;
              running = shift (keys wd);
              direction = (if w (keys wd) then -1 else 1);
              forwardX = - sin (y (rotation pm));
              forwardZ = - cos (y (rotation pm));
              currentSpeed = (if running then runSpeed ps else moveSpeed ps);
              ps1 = ps\<lparr>velocity := (velocity ps)\<lparr>x := forwardX * currentSpeed * direction,
                                                  z := forwardZ * currentSpeed * direction\<rparr>\<rparr>;
              newPosX = x (position ps1) + x (velocity ps1) * deltaTime;
              newPosZ = z (position ps1) + z (velocity ps1) * deltaTime;
              distanceToTree = sqrt (newPosX * newPosX + newPosZ * newPosZ)
          in if distanceToTree > treeRadius \<and> \<bar>newPosX\<bar> < mapBoundary \<and> \<bar>newPosZ\<bar> < mapBoundary
             then (wd\<lparr>playerState := ps1\<lparr>position := (position ps1)\<lparr>x := newPosX, z := newPosZ\<rparr>\<rparr>,
                      playerModel := Some (pm\<lparr>position := (position pm)\<lparr>x := newPosX, z := newPosZ\<rparr>\<rparr>)\<rparr>,
                   True, running)
             else (wd\<lparr>playerState := ps1\<rparr>, True, running)
        else fr)"

text \<open>Update animation only if not jumping or attacking (lines 596 to 607).\<close>

definition updatePlayer_animation :: "world \<times> bool \<times> bool \<Rightarrow> error + world" where
  "updatePlayer_animation fr =
     (case fr of (wd, moving, running) \<Rightarrow>
      if \<not> isJumping (playerState wd) \<and> \<not> isAttacking (playerState wd)
      then selectAnimation moving running wd
      else Inr wd)"

definition updatePlayer :: "real \<Rightarrow> world \<Rightarrow> error + world" where
  "updatePlayer deltaTime wd =
     (if playerModel wd = None then Inr wd
      else if isAttacking (playerState wd) \<and> \<not> isJumping (playerState wd) then Inr wd
      else
        bindE (updatePlayer_jump deltaTime (updatePlayer_rotate deltaTime wd)) (\<lambda>fr.
        updatePlayer_animation (updatePlayer_move deltaTime fr)))"

section \<open>The enemy's tick: \<open>updateEnemy\<close>\<close>

text \<open>
  \<open>Math.atan2\<close> on real numbers (signed zeros do not exist here), and the vector
  operations of the rendering library that \<open>updateEnemy\<close> uses: \<open>subVectors\<close>,
  \<open>length\<close> and \<open>normalize\<close>, which divides by \<open>length() || 1\<close>.
\<close>

definition atan2 :: "real \<Rightarrow> real \<Rightarrow> real" where
  "atan2 py px =
     (if px > 0 then arctan (py / px)
      else if px < 0 then (if py \<ge> 0 then arctan (py / px) + pi else arctan (py / px) - pi)
      else if py > 0 then pi / 2
      else if py < 0 then - (pi / 2)
      else 0)"

definition subVectors :: "vec3 \<Rightarrow> vec3 \<Rightarrow> vec3" where
  "subVectors u v = \<lparr>x = x u - x v, y = y u - y v, z = z u - z v\<rparr>"

definition vlength :: "vec3 \<Rightarrow> real" where
  "vlength v = sqrt (x v * x v + y v * y v + z v * z v)"

definition normalize :: "vec3 \<Rightarrow> vec3" where
  "normalize v =
     (let l = (if vlength v = 0 then 1 else vlength v)
      in \<lparr>x = x v / l, y = y v / l, z = z v / l\<rparr>)"

text \<open>The local \<open>angleDiff\<close> after the two wrapping statements (lines 643 to 647).\<close>

definition angleDiff :: "real \<Rightarrow> real \<Rightarrow> real" where
  "angleDiff targetAngle currentAngle =
     (let diff0 = targetAngle - currentAngle;
          diff1 = (if diff0 > pi then diff0 - pi * 2 else diff0);
          diff2 = (if diff1 < - pi then diff1 + pi * 2 else diff1)
      in diff2)"

text \<open>The new value of \<open>enemyModel.rotation.y\<close> (line 649).\<close>

definition rotateToward :: "real \<Rightarrow> real \<Rightarrow> real \<Rightarrow> real" where
  "rotateToward targetAngle currentAngle deltaTime =
     currentAngle + angleDiff targetAngle currentAngle * min (3 * deltaTime) 1.0"

text \<open>The branch \<open>distance < followDistance\<close> up to the collision test (lines 635 to 678).\<close>

definition updateEnemy_follow :: "real \<Rightarrow> vec3 \<Rightarrow> transform \<Rightarrow> world \<Rightarrow> world" where
  "updateEnemy_follow deltaTime direction0 em wd =
     (let es = enemyState wd;
          direction = normalize direction0;
          targetAngle = atan2 (x direction) (z direction);
          currentAngle = y (rotation em);
          em1 = em\<lparr>rotation := (rotation em)\<lparr>y := rotateToward targetAngle currentAngle deltaTime\<rparr>\<rparr>;
          es1 = es\<lparr>rotation := (rotation es)\<lparr>y := y (rotation em1)\<rparr>\<rparr>;
          forwardX = - sin (y (rotation em1));
          forwardZ = - cos (y (rotation em1));
          es2 = es1\<lparr>velocity := (velocity es1)\<lparr>x := forwardX * moveSpeed es1 * -1,
                                                z := forwardZ * moveSpeed es1 * -1\<rparr>\<rparr>;
          newPosX = x (position es2) + x (velocity es2) * deltaTime;
          newPosZ = z (position es2) + z (velocity es2) * deltaTime;
          distanceToTree = sqrt (newPosX * newPosX + newPosZ * newPosZ)
      in if distanceToTree > treeRadius \<and> \<bar>newPosX\<bar> < mapBoundary \<and> \<bar>newPosZ\<bar> < mapBoundary
         then let es3 = es2\<lparr>position := (position es2)\<lparr>x := newPosX, z := newPosZ\<rparr>\<rparr>
              in wd\<lparr>enemyState := es3, enemyModel := Some (em1\<lparr>position := position es3\<rparr>)\<rparr>
         else wd\<lparr>enemyState := es2, enemyModel := Some em1\<rparr>)"

text \<open>Update attack cooldown (lines 686 to 689).\<close>

definition updateEnemy_cooldown :: "real \<Rightarrow> world \<Rightarrow> world" where
  "updateEnemy_cooldown deltaTime wd =
     (if attackCooldown (enemyState wd) > 0
      then wd\<lparr>enemyState := (enemyState wd)\<lparr>attackCooldown := attackCooldown (enemyState wd) - deltaTime\<rparr>\<rparr>
      else wd)"

definition updateEnemy :: "real \<Rightarrow> world \<Rightarrow> error + world" where
  "updateEnemy deltaTime wd =
     (case enemyModel wd of
        None \<Rightarrow> Inr wd
      | Some em \<Rightarrow>
        if playerModel wd = None \<or> isAttacking (enemyState wd) then Inr wd
        else
          let direction = subVectors (position (playerState wd)) (position (enemyState wd));
              distance = vlength direction
          in bindE
               (if distance < attackDistance (enemyState wd) then
                  (if attackCooldown (enemyState wd) \<le> 0
                   then bindE (performAttack Enemy wd)
                          (\<lambda>wd1. Inr (wd1\<lparr>enemyState := (enemyState wd1)\<lparr>attackCooldown := 2\<rparr>\<rparr>))
                   else Inr wd)
                else if distance < followDistance (enemyState wd)
                then setAnimation Enemy WALK (updateEnemy_follow deltaTime direction em wd)
                else setAnimation Enemy IDLE wd)
               (\<lambda>wd2. Inr (updateEnemy_cooldown deltaTime wd2)))"

section \<open>The animation loop and the event handlers\<close>

definition animate :: "real \<Rightarrow> world \<Rightarrow> error + world" where
  "animate deltaTime wd =
     (let wd1 = (if playerMixer wd \<noteq> None then call (Update Player deltaTime) wd else wd);
          wd2 = (if enemyMixer wd1 \<noteq> None then call (Update Enemy deltaTime) wd1 else wd1)
      in bindE (updatePlayer deltaTime wd2) (updateEnemy deltaTime))"

text \<open>The key of a keyboard event after \<open>e.key.toLowerCase()\<close>.\<close>

datatype key = Key_w | Key_a | Key_s | Key_d | Key_space | Key_shift | Key_f | Key_other

definition keydown :: "key \<Rightarrow> world \<Rightarrow> error + world" where
  "keydown k wd =
     (case k of
        Key_w \<Rightarrow> Inr (wd\<lparr>keys := (keys wd)\<lparr>w := True\<rparr>\<rparr>)
      | Key_a \<Rightarrow> Inr (wd\<lparr>keys := (keys wd)\<lparr>a := True\<rparr>\<rparr>)
      | Key_s \<Rightarrow> Inr (wd\<lparr>keys := (keys wd)\<lparr>s := True\<rparr>\<rparr>)
      | Key_d \<Rightarrow> Inr (wd\<lparr>keys := (keys wd)\<lparr>d := True\<rparr>\<rparr>)
      | Key_space \<Rightarrow>
          (let wd1 = wd\<lparr>keys := (keys wd)\<lparr>space := True\<rparr>\<rparr>
           in if \<not> isJumping (playerState wd1) \<and> \<not> isAttacking (playerState wd1)
              then performJump wd1 else Inr wd1)
      | Key_shift \<Rightarrow> Inr (wd\<lparr>keys := (keys wd)\<lparr>shift := True\<rparr>\<rparr>)
      | Key_f \<Rightarrow>
          (let wd1 = wd\<lparr>keys := (keys wd)\<lparr>f := True\<rparr>\<rparr>
           in if \<not> isAttacking (playerState wd1) \<and> \<not> isJumping (playerState wd1)
              then performAttack Player wd1 else Inr wd1)
      | Key_other \<Rightarrow> Inr wd)"

definition keyup :: "key \<Rightarrow> world \<Rightarrow> world" where
  "keyup k wd =
     (case k of
        Key_w \<Rightarrow> wd\<lparr>keys := (keys wd)\<lparr>w := False\<rparr>\<rparr>
      | Key_a \<Rightarrow> wd\<lparr>keys := (keys wd)\<lparr>a := False\<rparr>\<rparr>
      | Key_s \<Rightarrow> wd\<lparr>keys := (keys wd)\<lparr>s := False\<rparr>\<rparr>
      | Key_d \<Rightarrow> wd\<lparr>keys := (keys wd)\<lparr>d := False\<rparr>\<rparr>
      | Key_space \<Rightarrow> wd\<lparr>keys := (keys wd)\<lparr>space := False\<rparr>\<rparr>
      | Key_shift \<Rightarrow> wd\<lparr>keys := (keys wd)\<lparr>shift := False\<rparr>\<rparr>
      | Key_f \<Rightarrow> wd\<lparr>keys := (keys wd)\<lparr>f := False\<rparr>\<rparr>
      | Key_other \<Rightarrow> wd)"

definition click :: "world \<Rightarrow> error + world" where
  "click wd =
     (if \<not> isAttacking (playerState wd) \<and> \<not> isJumping (playerState wd)
      then performAttack Player wd else Inr wd)"

section \<open>Loading models\<close>

text \<open>
  \<open>gltf.scene\<close> placed by \<open>rotation.copy\<close> and \<open>position.copy\<close> from a character's state.
\<close>

definition placedModel :: "'e characterState_scheme \<Rightarrow> transform" where
  "placedModel st = \<lparr>position = position st, rotation = rotation st\<rparr>"

text \<open>
  The success callbacks of the start-up \<open>loader.load\<close> (lines 147 to 328), with the
  loaded \<open>gltf.animations\<close> as argument.
\<close>

definition startupPlayerLoaded :: "animationClip list \<Rightarrow> world \<Rightarrow> error + world" where
  "startupPlayerLoaded gltf_animations wd =
     (let wd1 = wd\<lparr>playerModel := Some (placedModel (playerState wd)),
                    playerMixer := Some (AnimationMixer Player)\<rparr>
      in bindE (loadCallback_forEach Player gltf_animations wd1) (\<lambda>wd2.
         Inr (if animations Player wd2 IDLE \<noteq> None then call (Play Player IDLE) wd2 else wd2)))"

definition startupEnemyLoaded :: "animationClip list \<Rightarrow> world \<Rightarrow> error + world" where
  "startupEnemyLoaded gltf_animations wd =
     (let wd1 = wd\<lparr>enemyModel := Some (placedModel (enemyState wd)),
                    enemyMixer := Some (AnimationMixer Enemy)\<rparr>
      in bindE (loadCallback_forEach Enemy gltf_animations wd1) (\<lambda>wd2.
         Inr (if animations Enemy wd2 IDLE \<noteq> None then call (Play Enemy IDLE) wd2 else wd2)))"

text \<open>
  \<open>loadCustomModel\<close> up to the call of \<open>loader.load\<close> (lines 784 to 810): both animation
  variables get fresh objects and both halves of \<open>animationMap\<close> are reset. The result
  also says whether \<open>oldPlayerModel\<close> and \<open>oldEnemyModel\<close> are set, for the callbacks.
\<close>

definition loadCustomModel :: "world \<Rightarrow> world \<times> bool \<times> bool" where
  "loadCustomModel wd =
     (wd\<lparr>playerAnimations := nextObject wd,
         enemyAnimations := Suc (nextObject wd),
         animObjects := (animObjects wd)(nextObject wd := Map.empty, Suc (nextObject wd) := Map.empty),
         nextObject := Suc (Suc (nextObject wd)),
         animationMap := (\<lambda>ch r. noEntry)\<rparr>,
      playerModel wd \<noteq> None, enemyModel wd \<noteq> None)"

text \<open>The two success callbacks inside \<open>loadCustomModel\<close> (lines 816 to 919).\<close>

definition customPlayerLoaded :: "bool \<Rightarrow> animationClip list \<Rightarrow> world \<Rightarrow> error + world" where
  "customPlayerLoaded oldPlayerModel gltf_animations wd =
     (let wd1 = (if oldPlayerModel \<and> playerMixer wd \<noteq> None
                 then call (UncacheRoot Player) (call (StopAllAction Player) wd) else wd);
          wd2 = wd1\<lparr>playerModel := Some (placedModel (playerState wd1)),
                     playerState := (playerState wd1)\<lparr>currentAnimation := None\<rparr>,
                     playerMixer := Some (AnimationMixer Player)\<rparr>
      in processModelAnimations gltf_animations Player wd2)"

definition customEnemyLoaded :: "bool \<Rightarrow> animationClip list \<Rightarrow> world \<Rightarrow> error + world" where
  "customEnemyLoaded oldEnemyModel gltf_animations wd =
     (let wd1 = (if oldEnemyModel \<and> enemyMixer wd \<noteq> None
                 then call (UncacheRoot Enemy) (call (StopAllAction Enemy) wd) else wd);
          wd2 = wd1\<lparr>enemyModel := Some (placedModel (enemyState wd1)),
                     enemyState := (enemyState wd1)\<lparr>currentAnimation := None\<rparr>,
                     enemyMixer := Some (AnimationMixer Enemy)\<rparr>
      in processModelAnimations gltf_animations Enemy wd2)"

section \<open>Runs of the module\<close>

text \<open>
  Everything that can happen to the module once it is loaded: a frame of the animation
  loop with its elapsed time, an input event, the expiry of a pending timer, a call of
  \<open>loadCustomModel\<close>, and the completion of a load with the clips it delivers. Loads
  complete in any order and any number of times here, which allows every run of the
  program and more.
\<close>

datatype event =
    Frame real
  | KeyDown key
  | KeyUp key
  | Click
  | Timeout nat
  | StartupPlayerLoaded "animationClip list"
  | StartupEnemyLoaded "animationClip list"
  | LoadCustomModel
  | CustomPlayerLoaded bool "animationClip list"
  | CustomEnemyLoaded bool "animationClip list"

fun handle :: "event \<Rightarrow> world \<Rightarrow> error + world" where
  "handle (Frame deltaTime) wd = animate deltaTime wd"
| "handle (KeyDown k) wd = keydown k wd"
| "handle (KeyUp k) wd = Inr (keyup k wd)"
| "handle Click wd = click wd"
| "handle (Timeout i) wd =
     (if i < length (timers wd)
      then attackTimeout (timers wd ! i)
             (wd\<lparr>timers := take i (timers wd) @ drop (Suc i) (timers wd)\<rparr>)
      else Inr wd)"
| "handle (StartupPlayerLoaded cs) wd = startupPlayerLoaded cs wd"
| "handle (StartupEnemyLoaded cs) wd = startupEnemyLoaded cs wd"
| "handle LoadCustomModel wd = Inr (fst (loadCustomModel wd))"
| "handle (CustomPlayerLoaded old cs) wd = customPlayerLoaded old cs wd"
| "handle (CustomEnemyLoaded old cs) wd = customEnemyLoaded old cs wd"

fun run :: "event list \<Rightarrow> world \<Rightarrow> error + world" where
  "run [] wd = Inr wd"
| "run (e # es) wd = bindE (handle e wd) (run es)"

text \<open>
  The world the module is in after the events \<open>es\<close>, counted from its initial world. No
  run returns an error (\<open>run_total\<close> below), so this is the world of \<open>run\<close>.
\<close>

definition after :: "event list \<Rightarrow> world" where
  "after es = projr (run es initialWorld)"

section \<open>Notions of the specification\<close>

text \<open>
  The collision rule in the words of the specification: a candidate position is accepted
  when its planar distance from the origin exceeds the obstacle radius and both of its
  coordinates are strictly inside the arena.
\<close>

definition accepted :: "real \<Rightarrow> real \<Rightarrow> bool" where
  "accepted px pz \<longleftrightarrow>
     sqrt (px * px + pz * pz) > treeRadius \<and> \<bar>px\<bar> < mapBoundary \<and> \<bar>pz\<bar> < mapBoundary"

text \<open>
  The enemy's tick runs (both models loaded, enemy not attacking) and the player is in
  the band where the enemy follows.
\<close>

definition following :: "world \<Rightarrow> bool" where
  "following wd \<longleftrightarrow>
     enemyModel wd \<noteq> None \<and> playerModel wd \<noteq> None \<and> \<not> isAttacking (enemyState wd) \<and>
     (let distance = vlength (subVectors (position (playerState wd)) (position (enemyState wd)))
      in \<not> distance < attackDistance (enemyState wd) \<and> distance < followDistance (enemyState wd))"

text \<open>
  The consistency of height and jumping flag: a player that is not jumping stands at
  height 0, and so does the enemy, whose state has no jumping flag. \<open>vertical\<close> collects
  what it looks at.
\<close>

definition vertical :: "world \<Rightarrow> bool \<times> real \<times> real" where
  "vertical wd =
     (isJumping (playerState wd), y (position (playerState wd)), y (position (enemyState wd)))"

definition consistent :: "world \<Rightarrow> bool" where
  "consistent wd \<longleftrightarrow>
     (\<not> isJumping (playerState wd) \<longrightarrow> y (position (playerState wd)) = 0) \<and>
     y (position (enemyState wd)) = 0"

text \<open>
  The angular distance between two headings, on the circle: the angle between 0 and
  \<open>pi\<close> whose cosine is the cosine of their difference.
\<close>

definition angularDistance :: "real \<Rightarrow> real \<Rightarrow> real" where
  "angularDistance u v = arccos (cos (u - v))"

section \<open>Closed forms used in the proofs\<close>

text \<open>
  The world \<open>assignClip\<close> returns when the character has a mixer.
\<close>

definition assignClip_world :: "character \<Rightarrow> role \<Rightarrow> animationClip \<Rightarrow> world \<Rightarrow> world" where
  "assignClip_world ch r c wd =
     wd\<lparr>animationMap :=
          (animationMap wd)(ch := (animationMap wd ch)(r := \<lparr>duration = duration c, clip = Some c\<rparr>)),
        animObjects :=
          (animObjects wd)(animationsRef ch wd := (animations ch wd)(r \<mapsto> ClipAction c))\<rparr>"

text \<open>
  The calls \<open>setAnimation\<close> makes when it switches, and the world it returns.
\<close>

definition setAnimation_calls :: "character \<Rightarrow> role \<Rightarrow> world \<Rightarrow> libcall list" where
  "setAnimation_calls ch r wd =
     (if info_mixer ch wd \<noteq> None then [StopAllAction ch] else [])
     @ (if r = ATTACK \<or> r = JUMP
        then [SetLoop ch r LoopOnce Unspecified, SetClampWhenFinished ch r True]
        else [SetLoop ch r LoopRepeat Infinity])
     @ [SetEffectiveWeight ch r 1, Reset ch r, Play ch r]"

definition setAnimation_world :: "character \<Rightarrow> role \<Rightarrow> world \<Rightarrow> world" where
  "setAnimation_world ch r wd =
     (if animations ch wd r = None \<or> info_currentAnimation ch wd = Some r then wd
      else set_currentAnimation ch (Some r)
             (wd\<lparr>playback := playback wd @ setAnimation_calls ch r wd\<rparr>))"

text \<open>
  Two worlds that differ at most in the two \<open>currentAnimation\<close> fields and in the
  recorded calls, which is what requesting roles can change; and two worlds that differ
  at most in those, in the two \<open>isAttacking\<close> flags and in the pending timers, which is
  what starting and ending attacks can change as well.
\<close>

definition animates :: "world \<Rightarrow> world \<Rightarrow> bool" where
  "animates wd wd' \<longleftrightarrow>
     (\<exists>pc ec pb. wd' = wd\<lparr>playerState := (playerState wd)\<lparr>currentAnimation := pc\<rparr>,
                          enemyState := (enemyState wd)\<lparr>currentAnimation := ec\<rparr>,
                          playback := pb\<rparr>)"

definition acts :: "world \<Rightarrow> world \<Rightarrow> bool" where
  "acts wd wd' \<longleftrightarrow>
     (\<exists>pc pa ec ea tm pb.
        wd' = wd\<lparr>playerState := (playerState wd)\<lparr>currentAnimation := pc, isAttacking := pa\<rparr>,
                  enemyState := (enemyState wd)\<lparr>currentAnimation := ec, isAttacking := ea\<rparr>,
                  timers := tm, playback := pb\<rparr>)"

text \<open>
  The timer \<open>performAttack\<close> hands to \<open>setTimeout\<close>.
\<close>

definition attackTimer :: "character \<Rightarrow> world \<Rightarrow> timer" where
  "attackTimer ch wd =
     \<lparr>delay = (if duration (animationMap wd ch ATTACK) > 0
               then duration (animationMap wd ch ATTACK) else 1) * 1000,
      info_character = ch, info_animations = animationsRef ch wd\<rparr>"

text \<open>
  The vertical integration of the jump block of \<open>updatePlayer\<close> without its role
  requests, and the rotation, jump and move blocks in a row: the motion of the player
  in one tick.
\<close>

definition jumpStep :: "real \<Rightarrow> world \<Rightarrow> world" where
  "jumpStep deltaTime wd =
     (if isJumping (playerState wd) then
        let ps = playerState wd;
            vy = y (velocity ps) - 9.8 * deltaTime;
            py = y (position ps) + vy * deltaTime;
            ps1 = (if py \<le> 0
                   then ps\<lparr>position := (position ps)\<lparr>y := 0\<rparr>,
                           velocity := (velocity ps)\<lparr>y := 0\<rparr>, isJumping := False\<rparr>
                   else ps\<lparr>position := (position ps)\<lparr>y := py\<rparr>,
                           velocity := (velocity ps)\<lparr>y := vy\<rparr>\<rparr>)
        in wd\<lparr>playerState := ps1,
              playerModel := map_option (\<lambda>pm. pm\<lparr>position := (position pm)\<lparr>y := y (position ps1)\<rparr>\<rparr>)
                               (playerModel wd)\<rparr>
      else wd)"

definition kinematics :: "real \<Rightarrow> world \<Rightarrow> world" where
  "kinematics deltaTime wd =
     fst (updatePlayer_move deltaTime (jumpStep deltaTime (updatePlayer_rotate deltaTime wd), False, False))"

text \<open>
  The motion and the cooldown of the enemy in one tick, without its role requests and
  without the attack it may start.
\<close>

definition enemyKinematics :: "real \<Rightarrow> world \<Rightarrow> world" where
  "enemyKinematics deltaTime wd =
     (case enemyModel wd of
        None \<Rightarrow> wd
      | Some em \<Rightarrow>
        if playerModel wd = None \<or> isAttacking (enemyState wd) then wd
        else
          let direction = subVectors (position (playerState wd)) (position (enemyState wd));
              distance = vlength direction;
              wd1 = (if distance < attackDistance (enemyState wd) then
                       (if attackCooldown (enemyState wd) \<le> 0
                        then wd\<lparr>enemyState := (enemyState wd)\<lparr>attackCooldown := 2\<rparr>\<rparr>
                        else wd)
                     else if distance < followDistance (enemyState wd)
                     then updateEnemy_follow deltaTime direction em wd
                     else wd)
          in updateEnemy_cooldown deltaTime wd1)"

section \<open>Example worlds\<close>

text \<open>
  The world in which the loop of the player's start-up callback runs when the model
  has no clips yet bound (model placed, mixer created), and the world after the
  start-up load delivered a model whose only clip is named \<open>RUN_JUMP\<close>.
\<close>

definition mixerReady :: world where
  "mixerReady = after [StartupPlayerLoaded []]"

definition runJumpLoaded :: world where
  "runJumpLoaded = after [StartupPlayerLoaded [clipNamed ''RUN_JUMP'' 1]]"

text \<open>
  The world after the start-up load delivered a model whose only clip is an idle clip,
  and the world after it delivered an attack clip of 0.8 seconds and an idle clip.
\<close>

definition idleOnly :: world where
  "idleOnly = after [StartupPlayerLoaded [clipNamed ''Idle'' 2]]"

definition attackReady :: world where
  "attackReady = after [StartupPlayerLoaded [clipNamed ''Attack'' 0.8, clipNamed ''Idle'' 2]]"

text \<open>
  The world after \<open>loadCustomModel\<close> was called on the initial world and its load for
  the player delivered the clips \<open>cs\<close>; and the world in which that load's callback
  calls \<open>processModelAnimations\<close>: the player's model placed, \<open>currentAnimation\<close> set to
  \<open>'NONE'\<close> and the player's mixer created.
\<close>

definition uploaded :: "animationClip list \<Rightarrow> world" where
  "uploaded cs = after [LoadCustomModel, CustomPlayerLoaded False cs]"

definition uploadStart :: world where
  "uploadStart =
     (after [LoadCustomModel])
       \<lparr>playerModel := Some (placedModel initialPlayerState),
        playerState := initialPlayerState\<lparr>currentAnimation := None\<rparr>,
        playerMixer := Some (AnimationMixer Player)\<rparr>"

text \<open>
  Both models loaded, the enemy's with an attack clip; the same world in the middle of
  an attack of the enemy; and the same world with a quarter of a second of cooldown
  left.
\<close>

definition bothLoaded :: world where
  "bothLoaded = after [StartupPlayerLoaded [], StartupEnemyLoaded [clipNamed ''Attack'' 0.8]]"

definition midAttack :: world where
  "midAttack = bothLoaded\<lparr>enemyState := (enemyState bothLoaded)\<lparr>isAttacking := True, attackCooldown := 2\<rparr>\<rparr>"

definition cooling :: world where
  "cooling = bothLoaded\<lparr>enemyState := (enemyState bothLoaded)\<lparr>attackCooldown := 1 / 4\<rparr>\<rparr>"

text \<open>
  Both models loaded, the player five units from the enemy in the direction of the
  negative first axis, and the enemy's model turned to the heading \<open>3 * pi\<close>; and both
  models loaded with the player five units from the enemy in the direction of the
  positive third axis, which is the enemy's heading 0.
\<close>

definition turnedEnemy :: world where
  "turnedEnemy =
     (after [StartupPlayerLoaded [], StartupEnemyLoaded []])
       \<lparr>playerState := initialPlayerState\<lparr>position := vec 5 0 10\<rparr>,
        enemyState := initialEnemyState\<lparr>rotation := vec 0 (3 * pi) 0\<rparr>,
        enemyModel := Some \<lparr>position = vec 10 0 10, rotation = vec 0 (3 * pi) 0\<rparr>\<rparr>"

definition chasing :: world where
  "chasing =
     (after [StartupPlayerLoaded [], StartupEnemyLoaded []])
       \<lparr>playerState := initialPlayerState\<lparr>position := vec 10 0 15\<rparr>\<rparr>"

text \<open>
  The player's model loaded without clips, with the forward key held; the same with
  the run modifier held as well; the player one unit from the tree with the backward
  key held; and the world after the player's model was loaded without clips and the
  jump key was pressed.
\<close>

definition walking :: world where
  "walking = after [StartupPlayerLoaded [], KeyDown Key_w]"

definition shiftNoRun :: world where
  "shiftNoRun = after [StartupPlayerLoaded [], KeyDown Key_w, KeyDown Key_shift]"

definition nearTree :: world where
  "nearTree =
     (after [StartupPlayerLoaded [], KeyDown Key_s])
       \<lparr>playerState := initialPlayerState\<lparr>position := vec 0 0 1\<rparr>,
        playerModel := Some \<lparr>position = vec 0 0 1, rotation = vec 0 0 0\<rparr>\<rparr>"

definition airborne :: world where
  "airborne = after [StartupPlayerLoaded [], KeyDown Key_space]"

section \<open>Properties of the model\<close>

subsection \<open>Requesting a role never fails\<close>

lemma animations_call [simp]: "animations ch (call c wd) = animations ch wd"
  by (simp add: animations_def call_def animationsRef_def)

lemma bindE_Inr [simp]: "bindE (Inr v) k = k v"
  by (simp add: bindE_def)

lemma bindE_Inl [simp]: "bindE (Inl e) k = Inl e"
  by (simp add: bindE_def)

lemma animations_playback [simp]: "animations ch (wd\<lparr>playback := p\<rparr>) = animations ch wd"
  by (simp add: animations_def animationsRef_def)

lemma setAnimation_eq: "setAnimation ch r wd = Inr (setAnimation_world ch r wd)"
  by (cases "info_mixer ch wd")
     (auto simp: setAnimation_def setAnimation_world_def onAction_def setAnimation_calls_def call_def)

lemma animates_refl [simp]: "animates wd wd"
  unfolding animates_def
  by (rule exI [of _ "currentAnimation (playerState wd)"],
      rule exI [of _ "currentAnimation (enemyState wd)"],
      rule exI [of _ "playback wd"]) simp

lemma animates_trans: "animates wd wd1 \<Longrightarrow> animates wd1 wd2 \<Longrightarrow> animates wd wd2"
  unfolding animates_def by (elim exE) (simp, blast)

lemma animates_setAnimation_world: "animates wd (setAnimation_world ch r wd)"
proof (cases "animations ch wd r = None \<or> info_currentAnimation ch wd = Some r")
  case True
  then show ?thesis by (simp add: setAnimation_world_def)
next
  case False
  show ?thesis
  proof (cases ch)
    case Player
    with False show ?thesis
      unfolding animates_def setAnimation_world_def set_currentAnimation_def
      by (rule_tac exI [of _ "Some r"], rule_tac exI [of _ "currentAnimation (enemyState wd)"],
          rule_tac exI [of _ "playback wd @ setAnimation_calls Player r wd"]) auto
  next
    case Enemy
    with False show ?thesis
      unfolding animates_def setAnimation_world_def set_currentAnimation_def
      by (rule_tac exI [of _ "currentAnimation (playerState wd)"], rule_tac exI [of _ "Some r"],
          rule_tac exI [of _ "playback wd @ setAnimation_calls Enemy r wd"]) auto
  qed
qed

lemma selectAnimation_animates:
  "\<exists>wd'. selectAnimation moving running wd = Inr wd' \<and> animates wd wd'"
  by (simp add: selectAnimation_def setAnimation_eq animates_setAnimation_world)

lemma animatesE:
  assumes "animates wd wd'"
  obtains pc ec pb where
    "wd' = wd\<lparr>playerState := (playerState wd)\<lparr>currentAnimation := pc\<rparr>,
              enemyState := (enemyState wd)\<lparr>currentAnimation := ec\<rparr>,
              playback := pb\<rparr>"
  using assms unfolding animates_def by blast

lemma animates_info_isAttacking:
  "animates wd wd' \<Longrightarrow> info_isAttacking ch wd' = info_isAttacking ch wd"
  by (erule animatesE) (simp add: info_isAttacking_def)

lemma animates_timers: "animates wd wd' \<Longrightarrow> timers wd' = timers wd"
  by (erule animatesE) simp

lemma performAttack_unbound:
  "animations ch wd ATTACK = None \<Longrightarrow> performAttack ch wd = Inr wd"
  by (simp add: performAttack_def)

lemma performAttack_bound:
  "animations ch wd ATTACK \<noteq> None \<Longrightarrow>
   performAttack ch wd =
     Inr (setTimeout (attackTimer ch wd) (setAnimation_world ch ATTACK (set_isAttacking ch True wd)))"
  by (auto simp: performAttack_def setAnimation_eq attackTimer_def Let_def)

lemma info_isAttacking_set [simp]: "info_isAttacking ch (set_isAttacking ch v wd) = v"
  by (simp add: info_isAttacking_def set_isAttacking_def)

lemma info_isAttacking_setTimeout [simp]:
  "info_isAttacking ch (setTimeout t wd) = info_isAttacking ch wd"
  by (simp add: info_isAttacking_def setTimeout_def)

lemma timers_set_isAttacking [simp]: "timers (set_isAttacking ch v wd) = timers wd"
  by (simp add: set_isAttacking_def)

subsection \<open>Evaluating the classifiers on concrete names\<close>

lemma str_includes_Nil [simp]: "str_includes str []"
  by (simp add: str_includes_def)

lemma str_includes_Nil_Cons [simp]: "\<not> str_includes [] (k # ks)"
  by (simp add: str_includes_def)

lemma str_includes_Cons_Cons [simp]:
  "str_includes (c # cs) (k # ks) \<longleftrightarrow> prefix (k # ks) (c # cs) \<or> str_includes cs (k # ks)"
  by (simp add: str_includes_def sublist_Cons_right)

lemma toUpperCase_simps [simp]:
  "toUpperCase [] = []"
  "toUpperCase (c # cs) = toUpperCase_char c # toUpperCase cs"
  by (simp_all add: toUpperCase_def)

lemmas classify_eval =
  startupPlayerLoaded_def startupEnemyLoaded_def loadCallback_forEach_def loadCallback_clip_def
  processModelAnimations_def processModelAnimations_clip_def
  clipNamed_def toUpperCase_char_def initialWorld_def assignClip_def animations_def
  animationsRef_def noEntry_def Let_def call_def after_def info_mixer_def

subsection \<open>Starting an attack\<close>

lemma timers_setTimeout: "timers (setTimeout t wd) = timers wd @ [t]"
  by (simp add: setTimeout_def)

lemma attackReady_facts:
  "animations Player attackReady ATTACK \<noteq> None"
  "attackTimer Player attackReady = \<lparr>delay = 800, info_character = Player, info_animations = 0\<rparr>"
  "timers attackReady = []"
  by (simp_all add: attackReady_def attackTimer_def classify_eval)

text \<open>
  Claim C3, as the code has it. When an \<open>ATTACK\<close> action is bound for the character,
  \<open>performAttack\<close> sets \<open>isAttacking\<close>, requests the \<open>ATTACK\<close> role and arms one timer
  whose delay is the duration of the \<open>ATTACK\<close> entry when that is positive and 1.0
  second otherwise. When no \<open>ATTACK\<close> action is bound it returns at once: no lock and
  no timer. When the timer expires, in whatever world that is, \<open>isAttacking\<close> becomes
  false and \<open>IDLE\<close> is requested if the animations object captured at the start of
  the attack holds an \<open>IDLE\<close> action.
\<close>

theorem performAttack_lock:
  "(if animations ch wd ATTACK = None then performAttack ch wd = Inr wd
    else \<exists>wd1 wd2. setAnimation ch ATTACK (set_isAttacking ch True wd) = Inr wd1 \<and>
         performAttack ch wd = Inr wd2 \<and>
         wd2 = setTimeout (attackTimer ch wd) wd1 \<and>
         info_isAttacking ch wd2 \<and>
         timers wd2 = timers wd @ [attackTimer ch wd]) \<and>
   (\<exists>wd3. attackTimeout (attackTimer ch wd) wd' = Inr wd3 \<and>
      \<not> info_isAttacking ch wd3 \<and>
      (if animObjects wd' (animationsRef ch wd) IDLE \<noteq> None
       then setAnimation ch IDLE (set_isAttacking ch False wd') = Inr wd3
       else wd3 = set_isAttacking ch False wd'))"
proof (intro conjI)
  show "if animations ch wd ATTACK = None then performAttack ch wd = Inr wd
    else \<exists>wd1 wd2. setAnimation ch ATTACK (set_isAttacking ch True wd) = Inr wd1 \<and>
         performAttack ch wd = Inr wd2 \<and>
         wd2 = setTimeout (attackTimer ch wd) wd1 \<and>
         info_isAttacking ch wd2 \<and>
         timers wd2 = timers wd @ [attackTimer ch wd]"
  proof (cases "animations ch wd ATTACK = None")
    case True
    then show ?thesis by (simp add: performAttack_unbound)
  next
    case bound: False
    let ?wd0 = "set_isAttacking ch True wd"
    let ?wd1 = "setAnimation_world ch ATTACK ?wd0"
    have an: "animates ?wd0 ?wd1" by (rule animates_setAnimation_world)
    have "info_isAttacking ch ?wd1" using animates_info_isAttacking [OF an, of ch] by simp
    moreover have "timers ?wd1 = timers wd" using animates_timers [OF an] by simp
    ultimately show ?thesis
      using bound by (auto simp: performAttack_bound setAnimation_eq timers_setTimeout)
  qed
next
  let ?t = "attackTimer ch wd"
  let ?wd0 = "set_isAttacking ch False wd'"
  have an: "animates ?wd0 (setAnimation_world ch IDLE ?wd0)" by (rule animates_setAnimation_world)
  have off: "\<not> info_isAttacking ch (setAnimation_world ch IDLE ?wd0)"
    using animates_info_isAttacking [OF an, of ch] by simp
  have ao: "animObjects ?wd0 = animObjects wd'" by (simp add: set_isAttacking_def)
  show "\<exists>wd3. attackTimeout ?t wd' = Inr wd3 \<and>
      \<not> info_isAttacking ch wd3 \<and>
      (if animObjects wd' (animationsRef ch wd) IDLE \<noteq> None
       then setAnimation ch IDLE ?wd0 = Inr wd3
       else wd3 = ?wd0)"
    using off by (simp add: attackTimeout_def attackTimer_def Let_def ao setAnimation_eq)
qed

theorem performAttack_lock_witness:
  "animations Player attackReady ATTACK \<noteq> None \<and>
   (\<exists>wd2. performAttack Player attackReady = Inr wd2 \<and> info_isAttacking Player wd2 \<and>
      timers wd2 = [\<lparr>delay = 800, info_character = Player, info_animations = 0\<rparr>]) \<and>
   (\<exists>wd3. attackTimeout \<lparr>delay = 800, info_character = Player, info_animations = 0\<rparr> attackReady = Inr wd3 \<and>
      \<not> info_isAttacking Player wd3)"
  using performAttack_lock [of Player attackReady attackReady]
  by (auto simp: attackReady_facts)

theorem performAttack_unbound_counterexample:
  "animations Player idleOnly ATTACK = None \<and>
   performAttack Player idleOnly = Inr idleOnly \<and>
   \<not> isAttacking (playerState idleOnly) \<and> timers idleOnly = []"
  by (simp add: performAttack_def idleOnly_def classify_eval initialPlayerState_def)

subsection \<open>Requesting an unbound role\<close>

text \<open>
  Claim C9. For a role with no action in the character's animations object,
  \<open>setAnimation\<close> returns the world it was given: \<open>currentAnimation\<close> keeps its value
  and no call reaches a mixer or an action. For every role and every world it returns
  without a \<open>TypeError\<close>.
\<close>

theorem setAnimation_unbound_noop:
  "(animations ch wd r = None \<longrightarrow>
      setAnimation ch r wd = Inr wd) \<and>
   (\<exists>wd'. setAnimation ch r wd = Inr wd')"
  by (simp add: setAnimation_eq setAnimation_world_def)

theorem setAnimation_unbound_noop_witness:
  "animations Player idleOnly ATTACK = None \<and>
   setAnimation Player ATTACK idleOnly = Inr idleOnly \<and>
   animations Player idleOnly IDLE \<noteq> None"
  using setAnimation_unbound_noop [of Player idleOnly ATTACK]
  by (simp add: idleOnly_def classify_eval)

subsection \<open>The two classifiers\<close>

lemma assignClip_eq:
  "assignClip ch r c wd =
     (if info_mixer ch wd = None then Inl TypeError else Inr (assignClip_world ch r c wd))"
  by (auto simp: assignClip_def assignClip_world_def info_mixer_def animations_def
      animationsRef_def Let_def split: option.splits)

lemma assignClip_fields:
  "animationMap (assignClip_world ch r c wd) ch r = \<lparr>duration = duration c, clip = Some c\<rparr>"
  "animations ch (assignClip_world ch r c wd) r = Some (ClipAction c)"
  "r' \<noteq> r \<Longrightarrow> animationMap (assignClip_world ch r c wd) ch r' = animationMap wd ch r'"
  "r' \<noteq> r \<Longrightarrow> animations ch (assignClip_world ch r c wd) r' = animations ch wd r'"
  by (simp_all add: assignClip_world_def animations_def animationsRef_def)

lemma animationMap_call [simp]: "animationMap (call c wd) = animationMap wd"
  by (simp add: call_def)

lemma processModelAnimations_clip_firstMatch:
  "processModelAnimations_clip ch (wd, fnd) c =
     (case firstMatch c of
        None \<Rightarrow> Inr (wd, fnd)
      | Some r \<Rightarrow>
          if info_mixer ch wd = None then Inl TypeError
          else Inr ((if r = JUMP \<or> r = ATTACK
                     then call (SetClampWhenFinished ch r True)
                            (call (SetLoop ch r LoopOnce Unspecified) (assignClip_world ch r c wd))
                     else call (SetLoop ch r LoopRepeat Unspecified) (assignClip_world ch r c wd)), True))"
  by (simp add: processModelAnimations_clip_def firstMatch_def precedence_def matches_def Let_def
      assignClip_eq)

lemma loadCallback_clip_firstFree:
  "loadCallback_clip ch wd c =
     (case firstFree ch wd c of
        None \<Rightarrow> Inr wd
      | Some r \<Rightarrow>
          if info_mixer ch wd = None then Inl TypeError
          else Inr (assignClip_world ch r c wd))"
  by (simp add: loadCallback_clip_def firstFree_def startupPrecedence_def startupMatches_def Let_def
      assignClip_eq)

lemma uploadStart_facts:
  "info_mixer Player uploadStart \<noteq> None"
  "clip (animationMap uploadStart Player RUN) = None"
  "animations Player uploadStart JUMP = None"
  by (simp_all add: uploadStart_def loadCustomModel_def classify_eval)

lemma mixerReady_facts:
  "info_mixer Player mixerReady \<noteq> None"
  "clip (animationMap mixerReady Player WALK) = None"
  "animations Player mixerReady RUN = None"
  by (simp_all add: mixerReady_def classify_eval)

lemma example_matches:
  "firstMatch (clipNamed ''Dance'' 1) = None"
  "firstFree Player mixerReady (clipNamed ''Dance'' 1) = None"
  "firstFree Player idleOnly (clipNamed ''IDLE_ATTACK'' 1) = Some ATTACK"
  by (simp_all add: firstMatch_def precedence_def matches_def firstFree_def startupPrecedence_def
      startupMatches_def idleOnly_def mixerReady_def classify_eval)

lemma uploadStart_callback:
  "customPlayerLoaded False cs (after [LoadCustomModel]) = processModelAnimations cs Player uploadStart"
  by (simp add: customPlayerLoaded_def uploadStart_def after_def loadCustomModel_def initialWorld_def
      Let_def)

text \<open>
  Claim C1, as the code has it. With the character's mixer in place, as it is whenever
  the callbacks run, \<open>processModelAnimations\<close> tests each clip against the keyword sets
  in the order \<open>IDLE\<close>, \<open>WALK\<close>, \<open>RUN\<close>, \<open>JUMP\<close>, \<open>ATTACK\<close>: a clip that matches no keyword
  set changes nothing, and a clip whose first matching role in that order has no
  binding yet is bound to that role and to no other; a clip named \<open>RUN_JUMP\<close> is
  classified as \<open>RUN\<close>. The start-up callbacks test each clip against \<open>IDLE\<close>, then
  \<open>ATTACK\<close>, then \<open>WALK\<close> with the keywords \<open>WALK\<close> and \<open>RUN\<close>: a clip is bound to the
  first of these roles whose keyword set it matches and which has no clip yet, and to
  no other, and changes nothing when there is no such role; they classify \<open>RUN_JUMP\<close>
  as \<open>WALK\<close> while \<open>WALK\<close> has no clip.
\<close>

theorem processModelAnimations_precedence:
  "(case firstMatch c of
      None \<Rightarrow> processModelAnimations_clip ch (wd, fnd) c = Inr (wd, fnd)
    | Some r \<Rightarrow>
        info_mixer ch wd \<noteq> None \<and> clip (animationMap wd ch r) = None \<longrightarrow>
        (\<exists>wd'. processModelAnimations_clip ch (wd, fnd) c = Inr (wd', True) \<and>
           animationMap wd' ch r = \<lparr>duration = duration c, clip = Some c\<rparr> \<and>
           animations ch wd' r = Some (ClipAction c) \<and>
           (\<forall>r'. r' \<noteq> r \<longrightarrow>
              animationMap wd' ch r' = animationMap wd ch r' \<and>
              animations ch wd' r' = animations ch wd r'))) \<and>
   firstMatch (clipNamed ''RUN_JUMP'' t) = Some RUN \<and>
   (case firstFree ch wd c of
      None \<Rightarrow> loadCallback_clip ch wd c = Inr wd
    | Some r \<Rightarrow>
        info_mixer ch wd \<noteq> None \<longrightarrow>
        (\<exists>wd'. loadCallback_clip ch wd c = Inr wd' \<and>
           animationMap wd' ch r = \<lparr>duration = duration c, clip = Some c\<rparr> \<and>
           animations ch wd' r = Some (ClipAction c) \<and>
           (\<forall>r'. r' \<noteq> r \<longrightarrow>
              animationMap wd' ch r' = animationMap wd ch r' \<and>
              animations ch wd' r' = animations ch wd r'))) \<and>
   (clip (animationMap wd ch WALK) = None \<longrightarrow> firstFree ch wd (clipNamed ''RUN_JUMP'' t) = Some WALK)"
proof (intro conjI)
  show "case firstMatch c of
      None \<Rightarrow> processModelAnimations_clip ch (wd, fnd) c = Inr (wd, fnd)
    | Some r \<Rightarrow>
        info_mixer ch wd \<noteq> None \<and> clip (animationMap wd ch r) = None \<longrightarrow>
        (\<exists>wd'. processModelAnimations_clip ch (wd, fnd) c = Inr (wd', True) \<and>
           animationMap wd' ch r = \<lparr>duration = duration c, clip = Some c\<rparr> \<and>
           animations ch wd' r = Some (ClipAction c) \<and>
           (\<forall>r'. r' \<noteq> r \<longrightarrow>
              animationMap wd' ch r' = animationMap wd ch r' \<and>
              animations ch wd' r' = animations ch wd r'))"
    by (auto simp: processModelAnimations_clip_firstMatch assignClip_fields split: option.split)
  show "firstMatch (clipNamed ''RUN_JUMP'' t) = Some RUN"
    by (simp add: firstMatch_def precedence_def matches_def clipNamed_def toUpperCase_char_def)
  show "case firstFree ch wd c of
      None \<Rightarrow> loadCallback_clip ch wd c = Inr wd
    | Some r \<Rightarrow>
        info_mixer ch wd \<noteq> None \<longrightarrow>
        (\<exists>wd'. loadCallback_clip ch wd c = Inr wd' \<and>
           animationMap wd' ch r = \<lparr>duration = duration c, clip = Some c\<rparr> \<and>
           animations ch wd' r = Some (ClipAction c) \<and>
           (\<forall>r'. r' \<noteq> r \<longrightarrow>
              animationMap wd' ch r' = animationMap wd ch r' \<and>
              animations ch wd' r' = animations ch wd r'))"
    by (auto simp: loadCallback_clip_firstFree assignClip_fields split: option.split)
  show "clip (animationMap wd ch WALK) = None \<longrightarrow> firstFree ch wd (clipNamed ''RUN_JUMP'' t) = Some WALK"
    by (simp add: firstFree_def startupPrecedence_def startupMatches_def clipNamed_def toUpperCase_char_def)
qed

theorem processModelAnimations_precedence_witness:
  "firstMatch (clipNamed ''RUN_JUMP'' 1) = Some RUN \<and>
   info_mixer Player uploadStart \<noteq> None \<and> clip (animationMap uploadStart Player RUN) = None \<and>
   (\<exists>wd'. processModelAnimations_clip Player (uploadStart, False) (clipNamed ''RUN_JUMP'' 1) = Inr (wd', True) \<and>
      animations Player wd' RUN = Some (ClipAction (clipNamed ''RUN_JUMP'' 1)) \<and>
      animations Player wd' JUMP = None) \<and>
   firstMatch (clipNamed ''Dance'' 1) = None \<and>
   processModelAnimations_clip Player (uploadStart, False) (clipNamed ''Dance'' 1) = Inr (uploadStart, False) \<and>
   info_mixer Player mixerReady \<noteq> None \<and> clip (animationMap mixerReady Player WALK) = None \<and>
   firstFree Player mixerReady (clipNamed ''RUN_JUMP'' 1) = Some WALK \<and>
   (\<exists>wd'. loadCallback_clip Player mixerReady (clipNamed ''RUN_JUMP'' 1) = Inr wd' \<and>
      animations Player wd' WALK = Some (ClipAction (clipNamed ''RUN_JUMP'' 1)) \<and>
      animations Player wd' RUN = None) \<and>
   firstFree Player mixerReady (clipNamed ''Dance'' 1) = None \<and>
   loadCallback_clip Player mixerReady (clipNamed ''Dance'' 1) = Inr mixerReady"
  using processModelAnimations_precedence
          [where c = "clipNamed ''RUN_JUMP'' 1" and ch = Player and wd = uploadStart and fnd = False and t = 1]
        processModelAnimations_precedence
          [where c = "clipNamed ''Dance'' 1" and ch = Player and wd = uploadStart and fnd = False and t = 1]
        processModelAnimations_precedence
          [where c = "clipNamed ''RUN_JUMP'' 1" and ch = Player and wd = mixerReady and fnd = False and t = 1]
        processModelAnimations_precedence
          [where c = "clipNamed ''Dance'' 1" and ch = Player and wd = mixerReady and fnd = False and t = 1]
  by (auto simp: uploadStart_facts mixerReady_facts example_matches)

theorem startup_RUN_JUMP_counterexample:
  "animations Player runJumpLoaded RUN = None \<and>
   animations Player runJumpLoaded WALK = Some (ClipAction (clipNamed ''RUN_JUMP'' 1))"
  by (simp add: runJumpLoaded_def classify_eval)

subsection \<open>Several clips for one role\<close>

lemma loadCallback_clip_keeps_bound:
  "clip (animationMap wd ch r) \<noteq> None \<Longrightarrow> loadCallback_clip ch wd c = Inr wd' \<Longrightarrow>
   animationMap wd' ch r = animationMap wd ch r"
  by (cases r) (auto simp: loadCallback_clip_def Let_def assignClip_eq assignClip_world_def
                     split: if_splits)

lemma loadCallback_first_match_wins:
  "clip (animationMap wd ch r) \<noteq> None \<Longrightarrow> loadCallback_forEach ch cs wd = Inr wd' \<Longrightarrow>
   animationMap wd' ch r = animationMap wd ch r"
  unfolding loadCallback_forEach_def
proof (induction cs arbitrary: wd)
  case Nil
  then show ?case by simp
next
  case (Cons c cs)
  from Cons.prems(2) obtain wd1 where
    step: "loadCallback_clip ch wd c = Inr wd1" and
    rest: "forEach (loadCallback_clip ch) cs wd1 = Inr wd'"
    by (cases "loadCallback_clip ch wd c") auto
  have keep: "animationMap wd1 ch r = animationMap wd ch r"
    using Cons.prems(1) step by (rule loadCallback_clip_keeps_bound)
  then have "clip (animationMap wd1 ch r) \<noteq> None"
    using Cons.prems(1) by simp
  from Cons.IH [OF this rest] keep show ?case by simp
qed

text \<open>
  Claim C2 at an upload of the clips \<open>Base_IDLE\<close>, \<open>Stand_Stopped\<close>, \<open>WalkCycle\<close>:
  \<open>processModelAnimations\<close> leaves \<open>IDLE\<close> bound to \<open>Stand_Stopped\<close>, the last clip that
  matches the keyword set of \<open>IDLE\<close>, where the claim binds the first, \<open>Base_IDLE\<close>.
  The start-up callbacks keep the first binding, by \<open>loadCallback_first_match_wins\<close>.
\<close>

theorem upload_last_match_wins:
  "clip (animationMap (uploaded [clipNamed ''Base_IDLE'' 1, clipNamed ''Stand_Stopped'' 2, clipNamed ''WalkCycle'' 3]) Player IDLE)
     = Some (clipNamed ''Stand_Stopped'' 2) \<and>
   animations Player (uploaded [clipNamed ''Base_IDLE'' 1, clipNamed ''Stand_Stopped'' 2, clipNamed ''WalkCycle'' 3]) IDLE
     = Some (ClipAction (clipNamed ''Stand_Stopped'' 2))"
  by (simp add: uploaded_def customPlayerLoaded_def loadCustomModel_def classify_eval placedModel_def set_currentAnimation_def)

subsection \<open>The enemy's turn toward the player\<close>

lemma vec_sel [simp]: "x (vec px py pz) = px" "y (vec px py pz) = py" "z (vec px py pz) = pz"
  by (simp_all add: vec_def)

lemma angleDiff_cases:
  "angleDiff tgt cur =
     (if tgt - cur > pi then tgt - cur - 2 * pi
      else if tgt - cur < - pi then tgt - cur + 2 * pi
      else tgt - cur)"
  using pi_gt_zero by (auto simp: angleDiff_def Let_def)

lemma angleDiff_short_arc:
  assumes "\<bar>targetAngle - currentAngle\<bar> \<le> 3 * pi"
  shows "\<bar>angleDiff targetAngle currentAngle\<bar> \<le> pi"
  using assms pi_gt_zero by (auto simp: angleDiff_cases abs_if split: if_splits)

lemma heading_accumulates:
  "foldl (\<lambda>cur tgt. rotateToward tgt cur (1 / 3)) 0 [pi / 2, pi, - (pi / 2), 0, pi / 2, pi] = 3 * pi"
  using pi_ge_two by (simp add: rotateToward_def angleDiff_cases)

lemma updateEnemy_follow_rotation:
  "y (rotation (enemyState (updateEnemy_follow deltaTime direction0 em wd))) =
     rotateToward (atan2 (x (normalize direction0)) (z (normalize direction0))) (y (rotation em)) deltaTime"
  "animations ch (updateEnemy_follow deltaTime direction0 em wd) = animations ch wd"
  "info_currentAnimation ch (updateEnemy_follow deltaTime direction0 em wd) = info_currentAnimation ch wd"
  by (simp_all add: updateEnemy_follow_def Let_def animations_def animationsRef_def info_currentAnimation_def)

lemma sqrt25: "sqrt 25 = 5"
  using real_sqrt_abs [of 5] by simp

lemma rotateToward_between:
  assumes "0 \<le> deltaTime"
  shows "(let adjusted = currentAngle + angleDiff targetAngle currentAngle;
              updated = rotateToward targetAngle currentAngle deltaTime
          in min currentAngle adjusted \<le> updated \<and> updated \<le> max currentAngle adjusted \<and>
             \<bar>adjusted - updated\<bar> \<le> \<bar>adjusted - currentAngle\<bar> \<and>
             (adjusted = targetAngle \<or> adjusted = targetAngle - 2 * pi \<or> adjusted = targetAngle + 2 * pi) \<and>
             (\<bar>targetAngle - currentAngle\<bar> \<le> 3 * pi \<longrightarrow> \<bar>adjusted - currentAngle\<bar> \<le> pi) \<and>
             0 \<le> min (3 * deltaTime) 1 \<and> min (3 * deltaTime) (1::real) \<le> 1)"
proof -
  define k where "k = min (3 * deltaTime) (1::real)"
  define dd where "dd = angleDiff targetAngle currentAngle"
  have k: "0 \<le> k" "k \<le> 1" using assms by (simp_all add: k_def)
  have upd: "rotateToward targetAngle currentAngle deltaTime = currentAngle + dd * k"
    by (simp add: rotateToward_def k_def dd_def)
  have m1: "\<bar>dd * k\<bar> \<le> \<bar>dd\<bar>"
    using k by (simp add: abs_mult mult_left_le)
  have m2: "\<bar>dd - dd * k\<bar> \<le> \<bar>dd\<bar>"
  proof -
    have "dd - dd * k = dd * (1 - k)" by (simp add: algebra_simps)
    moreover have "\<bar>dd * (1 - k)\<bar> \<le> \<bar>dd\<bar>" using k by (simp add: abs_mult mult_left_le)
    ultimately show ?thesis by simp
  qed
  have sgn: "0 \<le> dd \<Longrightarrow> 0 \<le> dd * k \<and> dd * k \<le> dd" "dd \<le> 0 \<Longrightarrow> dd \<le> dd * k \<and> dd * k \<le> 0"
    using k by (simp_all add: mult_left_le mult_nonneg_nonneg mult_nonpos_nonneg mult_left_le_one_le)
       (metis mult.commute mult_left_le_one_le mult_minus_left neg_0_le_iff_le neg_le_iff_le)
  have adj: "currentAngle + dd = targetAngle \<or> currentAngle + dd = targetAngle - 2 * pi
             \<or> currentAngle + dd = targetAngle + 2 * pi"
    by (simp add: dd_def angleDiff_cases)
  have short: "\<bar>targetAngle - currentAngle\<bar> \<le> 3 * pi \<longrightarrow> \<bar>dd\<bar> \<le> pi"
    unfolding dd_def by (rule impI) (rule angleDiff_short_arc)
  show ?thesis
    unfolding Let_def upd dd_def [symmetric] k_def [symmetric]
    using k m2 sgn adj short by (cases "0 \<le> dd") (auto simp: min_def max_def)
qed


lemma angularDistance_shift:
  assumes "\<bar>e\<bar> \<le> pi"
    and "u - v = e \<or> u - v = e + 2 * pi \<or> u - v = e - 2 * pi"
  shows "angularDistance u v = \<bar>e\<bar>"
proof -
  have "cos (u - v) = cos e"
  proof -
    consider "u - v = e" | "u - v = e + 2 * pi" | "u - v = e - 2 * pi"
      using assms(2) by blast
    then show ?thesis
    proof cases
      case 1
      then show ?thesis by simp
    next
      case 2
      then show ?thesis by (simp only: cos_periodic)
    next
      case 3
      then have "u - v + 2 * pi = e" by simp
      then have "cos (u - v + 2 * pi) = cos e" by simp
      then show ?thesis by (simp only: cos_periodic)
    qed
  qed
  then have "angularDistance u v = arccos (cos e)"
    by (simp add: angularDistance_def)
  also have "\<dots> = \<bar>e\<bar>"
    using assms(1) by (cases "0 \<le> e") (simp_all add: arccos_cos arccos_cos2)
  finally show ?thesis .
qed

lemma rotateToward_approaches_in_range:
  assumes "0 \<le> deltaTime" and "\<bar>targetAngle - currentAngle\<bar> \<le> 3 * pi"
  shows "angularDistance (rotateToward targetAngle currentAngle deltaTime) targetAngle
           \<le> angularDistance currentAngle targetAngle"
proof -
  define k where "k = min (3 * deltaTime) (1::real)"
  define dd where "dd = angleDiff targetAngle currentAngle"
  have k: "0 \<le> k" "k \<le> 1" using assms(1) by (simp_all add: k_def)
  have small: "\<bar>dd\<bar> \<le> pi" unfolding dd_def by (rule angleDiff_short_arc [OF assms(2)])
  have upd: "rotateToward targetAngle currentAngle deltaTime = currentAngle + dd * k"
    by (simp add: rotateToward_def k_def dd_def)
  have adj: "dd = targetAngle - currentAngle \<or> dd = targetAngle - currentAngle - 2 * pi
      \<or> dd = targetAngle - currentAngle + 2 * pi"
    unfolding dd_def by (simp add: angleDiff_cases)
  have less: "\<bar>dd * (1 - k)\<bar> \<le> \<bar>dd\<bar>"
    using k by (simp add: abs_mult mult_left_le)
  have d0: "angularDistance currentAngle targetAngle = \<bar>- dd\<bar>"
    by (rule angularDistance_shift) (use small adj in auto)
  have d1: "angularDistance (currentAngle + dd * k) targetAngle = \<bar>- (dd * (1 - k))\<bar>"
    by (rule angularDistance_shift) (use small less adj in \<open>auto simp: algebra_simps\<close>)
  show ?thesis
    unfolding upd d0 d1 using less by simp
qed

lemma turnedEnemy_heading:
  "case updateEnemy deltaTime turnedEnemy of
     Inl e \<Rightarrow> False
   | Inr wd \<Rightarrow> y (rotation (enemyState wd)) = rotateToward (- (pi / 2)) (3 * pi) deltaTime"
proof -
  have dir: "subVectors (position (playerState turnedEnemy)) (position (enemyState turnedEnemy)) = vec (-5) 0 0"
    by (simp add: turnedEnemy_def subVectors_def vec_def initialPlayerState_def initialEnemyState_def)
  have len: "vlength (vec (-5) 0 0) = 5"
    by (simp add: vlength_def vec_def sqrt25)
  have tgt: "atan2 (x (normalize (vec (-5) 0 0))) (z (normalize (vec (-5) 0 0))) = - (pi / 2)"
    by (simp add: normalize_def len Let_def) (simp add: vec_def atan2_def)
  have st: "enemyModel turnedEnemy = Some \<lparr>position = vec 10 0 10, rotation = vec 0 (3 * pi) 0\<rparr>"
    "playerModel turnedEnemy \<noteq> None" "\<not> isAttacking (enemyState turnedEnemy)"
    "attackDistance (enemyState turnedEnemy) = 2" "followDistance (enemyState turnedEnemy) = 15"
    by (simp_all add: turnedEnemy_def initialEnemyState_def classify_eval)
  have "updateEnemy deltaTime turnedEnemy =
        Inr (updateEnemy_cooldown deltaTime
          (setAnimation_world Enemy WALK
             (updateEnemy_follow deltaTime (vec (-5) 0 0)
                \<lparr>position = vec 10 0 10, rotation = vec 0 (3 * pi) 0\<rparr> turnedEnemy)))"
    by (simp add: updateEnemy_def st dir len Let_def setAnimation_eq)
  moreover have "y (rotation (enemyState (updateEnemy_cooldown dt (setAnimation_world Enemy WALK wd)))) = y (rotation (enemyState wd))" for dt wd
    using animates_setAnimation_world [of wd Enemy WALK]
    by (auto elim!: animatesE simp: updateEnemy_cooldown_def)
  ultimately show ?thesis
    by (simp add: updateEnemy_follow_rotation tgt)
qed

text \<open>
  Claim C10. The interpolation factor \<open>min (3 * deltaTime) 1\<close> is clamped, and the updated
  heading lies between the previous heading and the wrap-adjusted target (lemma
  \<open>rotateToward_between\<close>); while the raw difference of the two angles stays within \<open>3 * pi\<close>
  the angular distance to the target does not increase (lemma
  \<open>rotateToward_approaches_in_range\<close>). Beyond that range the last part of the claim fails in
  the code, by the defect reported under C8: \<open>angleDiff\<close> wraps once only, so the wrap-adjusted
  target is not the target. With the stored heading at \<open>3 * pi\<close> (reached by real turning, lemma
  \<open>heading_accumulates\<close>), the target at \<open>- (pi / 2)\<close> and an elapsed time of \<open>1 / 9\<close>, the
  heading goes to \<open>5 * pi / 2\<close>: the angular distance to the target grows from a quarter turn
  to a half turn, in \<open>rotateToward\<close> and in a tick of \<open>updateEnemy\<close>.
\<close>

theorem distance_to_target_grows:
  "rotateToward (- (pi / 2)) (3 * pi) (1 / 9) = 5 * pi / 2 \<and>
   angularDistance (3 * pi) (- (pi / 2)) = pi / 2 \<and>
   angularDistance (5 * pi / 2) (- (pi / 2)) = pi \<and>
   (case updateEnemy (1 / 9) turnedEnemy of
      Inl e \<Rightarrow> False
    | Inr wd \<Rightarrow> y (rotation (enemyState wd)) = 5 * pi / 2)"
proof -
  have r: "rotateToward (- (pi / 2)) (3 * pi) (1 / 9) = 5 * pi / 2"
    using pi_ge_two by (simp add: rotateToward_def angleDiff_cases)
  have "3 * pi - - (pi / 2) = 3 / 2 * pi + 2 * pi" by simp
  then have "cos (3 * pi - - (pi / 2)) = 0" by (simp only: cos_periodic cos_3over2_pi)
  then have d0: "angularDistance (3 * pi) (- (pi / 2)) = pi / 2"
    unfolding angularDistance_def by (simp only: arccos_0)
  have "5 * pi / 2 - - (pi / 2) = pi + 2 * pi" by simp
  then have "cos (5 * pi / 2 - - (pi / 2)) = - 1" by (simp only: cos_periodic cos_pi)
  then have d1: "angularDistance (5 * pi / 2) (- (pi / 2)) = pi"
    unfolding angularDistance_def by (simp only: arccos_minus_1)
  show ?thesis
    using r d0 d1 turnedEnemy_heading [of "1 / 9"] by (simp split: sum.splits)
qed

text \<open>
  Claim C8 at the heading \<open>3 * pi\<close>, which the rotation step reaches from 0 by
  following a target that goes one and a half times round (\<open>heading_accumulates\<close>),
  with the player at the target heading \<open>- pi / 2\<close>: the raw difference is
  \<open>- 7 * pi / 2\<close>, one wrap leaves \<open>- 3 * pi / 2\<close>, and with an elapsed time of a third of
  a second \<open>updateEnemy\<close> turns the enemy by that much, the long way round. The wrap
  gives the short arc only while the raw difference is within \<open>3 * pi\<close>
  (\<open>angleDiff_short_arc\<close>).
\<close>

theorem long_way_round:
  "angleDiff (- (pi / 2)) (3 * pi) = - (3 * pi / 2) \<and>
   pi < \<bar>angleDiff (- (pi / 2)) (3 * pi)\<bar> \<and>
   (case updateEnemy (1 / 3) turnedEnemy of
      Inl e \<Rightarrow> False
    | Inr wd \<Rightarrow> y (rotation (enemyState wd)) = 3 * pi - 3 * pi / 2)"
proof -
  have ad: "angleDiff (- (pi / 2)) (3 * pi) = - (3 * pi / 2)"
    using pi_ge_two by (simp add: angleDiff_cases)
  have dir: "subVectors (position (playerState turnedEnemy)) (position (enemyState turnedEnemy)) = vec (-5) 0 0"
    by (simp add: turnedEnemy_def subVectors_def vec_def initialPlayerState_def initialEnemyState_def)
  have len: "vlength (vec (-5) 0 0) = 5"
    by (simp add: vlength_def vec_def sqrt25)
  have tgt: "atan2 (x (normalize (vec (-5) 0 0))) (z (normalize (vec (-5) 0 0))) = - (pi / 2)"
    by (simp add: normalize_def len Let_def) (simp add: vec_def atan2_def)
  have st: "enemyModel turnedEnemy = Some \<lparr>position = vec 10 0 10, rotation = vec 0 (3 * pi) 0\<rparr>"
    "playerModel turnedEnemy \<noteq> None" "\<not> isAttacking (enemyState turnedEnemy)"
    "attackDistance (enemyState turnedEnemy) = 2" "followDistance (enemyState turnedEnemy) = 15"
    by (simp_all add: turnedEnemy_def initialEnemyState_def classify_eval)
  have "updateEnemy (1 / 3) turnedEnemy =
        Inr (updateEnemy_cooldown (1 / 3)
          (setAnimation_world Enemy WALK
             (updateEnemy_follow (1 / 3) (vec (-5) 0 0)
                \<lparr>position = vec 10 0 10, rotation = vec 0 (3 * pi) 0\<rparr> turnedEnemy)))"
    by (simp add: updateEnemy_def st dir len Let_def setAnimation_eq)
  moreover have "y (rotation (enemyState (updateEnemy_cooldown dt (setAnimation_world Enemy WALK wd)))) = y (rotation (enemyState wd))" for dt wd
    using animates_setAnimation_world [of wd Enemy WALK]
    by (auto elim!: animatesE simp: updateEnemy_cooldown_def)
  ultimately show ?thesis
    using pi_ge_two by (simp add: ad updateEnemy_follow_rotation tgt rotateToward_def)
qed

subsection \<open>The player's tick is its motion plus role requests\<close>

lemma animatesI:
  "wd' = wd\<lparr>playerState := (playerState wd)\<lparr>currentAnimation := currentAnimation (playerState wd')\<rparr>,
            enemyState := (enemyState wd)\<lparr>currentAnimation := currentAnimation (enemyState wd')\<rparr>,
            playback := playback wd'\<rparr> \<Longrightarrow> animates wd wd'"
  unfolding animates_def by blast

lemma animates_setModelY:
  assumes "animates wd1 wd2"
  shows "animates
    (wd1\<lparr>playerModel := map_option (\<lambda>pm. pm\<lparr>position := (position pm)\<lparr>y := y (position (playerState wd1))\<rparr>\<rparr>) (playerModel wd1)\<rparr>)
    (wd2\<lparr>playerModel := map_option (\<lambda>pm. pm\<lparr>position := (position pm)\<lparr>y := y (position (playerState wd2))\<rparr>\<rparr>) (playerModel wd2)\<rparr>)"
  using assms by (elim animatesE) (rule animatesI, simp)

lemma updatePlayer_jump_animates:
  "\<exists>wd' moving running. updatePlayer_jump deltaTime wd = Inr (wd', moving, running) \<and>
      animates (jumpStep deltaTime wd) wd'"
proof (cases "isJumping (playerState wd)")
  case False
  then show ?thesis by (auto simp: updatePlayer_jump_def jumpStep_def)
next
  case True
  define ps where "ps = playerState wd"
  define vy where "vy = y (velocity ps) - 9.8 * deltaTime"
  define py where "py = y (position ps) + vy * deltaTime"
  show ?thesis
  proof (cases "py \<le> 0")
    case False
    with True show ?thesis
      by (auto simp: updatePlayer_jump_def jumpStep_def Let_def ps_def vy_def py_def intro!: animatesI)
  next
    case land: True
    define wd3 where "wd3 = wd\<lparr>playerState := ps\<lparr>position := (position ps)\<lparr>y := 0\<rparr>,
                           velocity := (velocity ps)\<lparr>y := 0\<rparr>, isJumping := False\<rparr>\<rparr>"
    obtain wd4 where sel: "selectAnimation (w (keys wd) \<or> s (keys wd)) (if w (keys wd) \<or> s (keys wd) then shift (keys wd) else False) wd3 = Inr wd4"
      and an: "animates wd3 wd4"
      using selectAnimation_animates by blast
    have js: "jumpStep deltaTime wd =
       wd3\<lparr>playerModel := map_option (\<lambda>pm. pm\<lparr>position := (position pm)\<lparr>y := y (position (playerState wd3))\<rparr>\<rparr>) (playerModel wd3)\<rparr>"
      using True land by (simp add: jumpStep_def Let_def ps_def vy_def py_def wd3_def)
    have "updatePlayer_jump deltaTime wd =
       Inr (wd4\<lparr>playerModel := map_option (\<lambda>pm. pm\<lparr>position := (position pm)\<lparr>y := y (position (playerState wd4))\<rparr>\<rparr>) (playerModel wd4)\<rparr>,
            w (keys wd) \<or> s (keys wd), if w (keys wd) \<or> s (keys wd) then shift (keys wd) else False)"
      using True land sel
      by (auto simp: updatePlayer_jump_def Let_def ps_def vy_def py_def wd3_def)
    then show ?thesis
      using animates_setModelY [OF an] js by simp
  qed
qed

lemma updatePlayer_move_animates:
  assumes "animates wd1 wd2"
  shows "animates (fst (updatePlayer_move deltaTime (wd1, m1, r1)))
                  (fst (updatePlayer_move deltaTime (wd2, m2, r2)))"
  using assms
  by (elim animatesE) (auto simp: updatePlayer_move_def Let_def split: option.splits intro!: animatesI)

lemma updatePlayer_animation_animates:
  "\<exists>wd'. updatePlayer_animation fr = Inr wd' \<and> animates (fst fr) wd'"
proof -
  obtain wd moving running where fr: "fr = (wd, moving, running)" by (cases fr) auto
  show ?thesis
    using selectAnimation_animates [of moving running wd]
    by (auto simp: fr updatePlayer_animation_def)
qed

lemma updatePlayer_skip:
  "playerModel wd = None \<or> (isAttacking (playerState wd) \<and> \<not> isJumping (playerState wd)) \<Longrightarrow>
   updatePlayer deltaTime wd = Inr wd"
  by (auto simp: updatePlayer_def)

lemma updatePlayer_animates:
  assumes "playerModel wd \<noteq> None"
    and "\<not> (isAttacking (playerState wd) \<and> \<not> isJumping (playerState wd))"
  shows "\<exists>wd'. updatePlayer deltaTime wd = Inr wd' \<and> animates (kinematics deltaTime wd) wd'"
proof -
  let ?wd1 = "updatePlayer_rotate deltaTime wd"
  obtain wd2 moving running where
    j: "updatePlayer_jump deltaTime ?wd1 = Inr (wd2, moving, running)"
    and an2: "animates (jumpStep deltaTime ?wd1) wd2"
    using updatePlayer_jump_animates by blast
  have an3: "animates (kinematics deltaTime wd) (fst (updatePlayer_move deltaTime (wd2, moving, running)))"
    unfolding kinematics_def by (rule updatePlayer_move_animates [OF an2])
  obtain wd4 where
    a: "updatePlayer_animation (updatePlayer_move deltaTime (wd2, moving, running)) = Inr wd4"
    and an4: "animates (fst (updatePlayer_move deltaTime (wd2, moving, running))) wd4"
    using updatePlayer_animation_animates by blast
  have "updatePlayer deltaTime wd = Inr wd4"
    using assms j a by (auto simp: updatePlayer_def)
  then show ?thesis using animates_trans [OF an3 an4] by simp
qed

lemma animates_playerState:
  assumes "animates wd wd'"
  shows "position (playerState wd') = position (playerState wd)"
    "rotation (playerState wd') = rotation (playerState wd)"
    "velocity (playerState wd') = velocity (playerState wd)"
    "isJumping (playerState wd') = isJumping (playerState wd)"
    "isAttacking (playerState wd') = isAttacking (playerState wd)"
    "playerModel wd' = playerModel wd"
    "keys wd' = keys wd"
  using assms by (auto elim!: animatesE)

subsection \<open>The enemy's tick is its motion plus role requests and attacks\<close>

lemma actsI:
  "wd' = wd\<lparr>playerState := (playerState wd)\<lparr>currentAnimation := currentAnimation (playerState wd'),
                                             isAttacking := isAttacking (playerState wd')\<rparr>,
            enemyState := (enemyState wd)\<lparr>currentAnimation := currentAnimation (enemyState wd'),
                                           isAttacking := isAttacking (enemyState wd')\<rparr>,
            timers := timers wd', playback := playback wd'\<rparr> \<Longrightarrow> acts wd wd'"
  unfolding acts_def by blast

lemma actsE:
  assumes "acts wd wd'"
  obtains pc pa ec ea tm pb where
    "wd' = wd\<lparr>playerState := (playerState wd)\<lparr>currentAnimation := pc, isAttacking := pa\<rparr>,
              enemyState := (enemyState wd)\<lparr>currentAnimation := ec, isAttacking := ea\<rparr>,
              timers := tm, playback := pb\<rparr>"
  using assms unfolding acts_def by blast

lemma acts_refl [simp]: "acts wd wd"
  by (rule actsI) simp

lemma acts_trans: "acts wd wd1 \<Longrightarrow> acts wd1 wd2 \<Longrightarrow> acts wd wd2"
  by (elim actsE) (rule actsI, simp)

lemma animates_acts: "animates wd wd' \<Longrightarrow> acts wd wd'"
  by (elim animatesE) (rule actsI, simp)

lemma acts_set_isAttacking: "acts wd (set_isAttacking ch v wd)"
  by (rule actsI) (simp add: set_isAttacking_def)

lemma acts_setTimeout: "acts wd (setTimeout t wd)"
  by (rule actsI) (simp add: setTimeout_def)

lemma performAttack_acts: "\<exists>wd'. performAttack ch wd = Inr wd' \<and> acts wd wd'"
proof (cases "animations ch wd ATTACK = None")
  case True
  then show ?thesis by (simp add: performAttack_unbound)
next
  case False
  have "acts wd (setAnimation_world ch ATTACK (set_isAttacking ch True wd))"
    by (rule acts_trans [OF acts_set_isAttacking animates_acts [OF animates_setAnimation_world]])
  then have "acts wd (setTimeout (attackTimer ch wd) (setAnimation_world ch ATTACK (set_isAttacking ch True wd)))"
    by (rule acts_trans [OF _ acts_setTimeout])
  with False show ?thesis by (simp add: performAttack_bound)
qed

lemma attackTimeout_acts: "\<exists>wd'. attackTimeout t wd = Inr wd' \<and> acts wd wd'"
  using acts_trans [OF acts_set_isAttacking animates_acts [OF animates_setAnimation_world]]
  by (auto simp: attackTimeout_def Let_def setAnimation_eq acts_set_isAttacking)

lemma acts_cooldown:
  "acts wd1 wd2 \<Longrightarrow> acts (updateEnemy_cooldown deltaTime wd1) (updateEnemy_cooldown deltaTime wd2)"
  by (elim actsE) (auto simp: updateEnemy_cooldown_def intro!: actsI)

lemma acts_set_cooldown:
  "acts wd1 wd2 \<Longrightarrow>
   acts (wd1\<lparr>enemyState := (enemyState wd1)\<lparr>attackCooldown := c\<rparr>\<rparr>)
        (wd2\<lparr>enemyState := (enemyState wd2)\<lparr>attackCooldown := c\<rparr>\<rparr>)"
  by (elim actsE) (auto intro!: actsI)

lemma updateEnemy_acts:
  "\<exists>wd'. updateEnemy deltaTime wd = Inr wd' \<and> acts (enemyKinematics deltaTime wd) wd'"
proof (cases "enemyModel wd")
  case None
  then show ?thesis by (simp add: updateEnemy_def enemyKinematics_def)
next
  case (Some em)
  show ?thesis
  proof (cases "playerModel wd = None \<or> isAttacking (enemyState wd)")
    case True
    with Some show ?thesis by (auto simp: updateEnemy_def enemyKinematics_def)
  next
    case run: False
    define direction where "direction = subVectors (position (playerState wd)) (position (enemyState wd))"
    define es where "es = enemyState wd"
    consider (attack) "vlength direction < attackDistance es" "attackCooldown es \<le> 0"
      | (wait) "vlength direction < attackDistance es" "\<not> attackCooldown es \<le> 0"
      | (follow) "\<not> vlength direction < attackDistance es" "vlength direction < followDistance es"
      | (idle) "\<not> vlength direction < attackDistance es" "\<not> vlength direction < followDistance es"
      by blast
    then show ?thesis
    proof cases
      case attack
      obtain wd1 where pa: "performAttack Enemy wd = Inr wd1" and ac: "acts wd wd1"
        using performAttack_acts by blast
      have "acts (updateEnemy_cooldown deltaTime (wd\<lparr>enemyState := (enemyState wd)\<lparr>attackCooldown := 2\<rparr>\<rparr>))
                 (updateEnemy_cooldown deltaTime (wd1\<lparr>enemyState := (enemyState wd1)\<lparr>attackCooldown := 2\<rparr>\<rparr>))"
        by (rule acts_cooldown [OF acts_set_cooldown [OF ac]])
      then show ?thesis
        using Some run attack pa
        by (auto simp: updateEnemy_def enemyKinematics_def Let_def direction_def es_def)
    next
      case wait
      then show ?thesis
        using Some run
        by (auto simp: updateEnemy_def enemyKinematics_def Let_def direction_def es_def)
    next
      case follow
      have "acts (updateEnemy_cooldown deltaTime (updateEnemy_follow deltaTime direction em wd))
                 (updateEnemy_cooldown deltaTime (setAnimation_world Enemy WALK (updateEnemy_follow deltaTime direction em wd)))"
        by (rule acts_cooldown [OF animates_acts [OF animates_setAnimation_world]])
      then show ?thesis
        using Some run follow
        by (auto simp: updateEnemy_def enemyKinematics_def Let_def direction_def es_def setAnimation_eq)
    next
      case idle
      have "acts (updateEnemy_cooldown deltaTime wd)
                 (updateEnemy_cooldown deltaTime (setAnimation_world Enemy IDLE wd))"
        by (rule acts_cooldown [OF animates_acts [OF animates_setAnimation_world]])
      then show ?thesis
        using Some run idle
        by (auto simp: updateEnemy_def enemyKinematics_def Let_def direction_def es_def setAnimation_eq)
    qed
  qed
qed

lemma acts_fields:
  assumes "acts wd wd'"
  shows "position (playerState wd') = position (playerState wd)"
    "rotation (playerState wd') = rotation (playerState wd)"
    "velocity (playerState wd') = velocity (playerState wd)"
    "isJumping (playerState wd') = isJumping (playerState wd)"
    "playerModel wd' = playerModel wd"
    "keys wd' = keys wd"
    "position (enemyState wd') = position (enemyState wd)"
    "rotation (enemyState wd') = rotation (enemyState wd)"
    "velocity (enemyState wd') = velocity (enemyState wd)"
    "attackCooldown (enemyState wd') = attackCooldown (enemyState wd)"
    "enemyModel wd' = enemyModel wd"
  using assms by (auto elim!: actsE)

subsection \<open>Speed, collision and cooldown\<close>

lemma jumpStep_planar:
  "x (position (playerState (jumpStep deltaTime wd))) = x (position (playerState wd))"
  "z (position (playerState (jumpStep deltaTime wd))) = z (position (playerState wd))"
  "rotation (playerState (jumpStep deltaTime wd)) = rotation (playerState wd)"
  "moveSpeed (playerState (jumpStep deltaTime wd)) = moveSpeed (playerState wd)"
  "runSpeed (playerState (jumpStep deltaTime wd)) = runSpeed (playerState wd)"
  "keys (jumpStep deltaTime wd) = keys wd"
  "map_option rotation (playerModel (jumpStep deltaTime wd)) = map_option rotation (playerModel wd)"
  by (auto simp: jumpStep_def Let_def option.map_comp comp_def)

lemma jumpStep_model_planar:
  "map_option (\<lambda>m. (x (position m), z (position m))) (playerModel (jumpStep deltaTime wd)) =
     map_option (\<lambda>m. (x (position m), z (position m))) (playerModel wd)"
  by (auto simp: jumpStep_def Let_def option.map_comp comp_def)

lemma rotate_fields:
  "playerModel wd \<noteq> None \<Longrightarrow>
     map_option (\<lambda>pm. y (rotation pm)) (playerModel (updatePlayer_rotate deltaTime wd)) =
       Some (y (rotation (playerState (updatePlayer_rotate deltaTime wd))))"
  "position (playerState (updatePlayer_rotate deltaTime wd)) = position (playerState wd)"
  "moveSpeed (playerState (updatePlayer_rotate deltaTime wd)) = moveSpeed (playerState wd)"
  "runSpeed (playerState (updatePlayer_rotate deltaTime wd)) = runSpeed (playerState wd)"
  "keys (updatePlayer_rotate deltaTime wd) = keys wd"
  by (auto simp: updatePlayer_rotate_def Let_def split: option.splits)

lemma rotate_heading:
  assumes "playerModel wd = Some pm"
  shows "y (rotation (playerState (updatePlayer_rotate deltaTime wd))) =
           y (rotation pm) + (if a (keys wd) then rotationSpeed (playerState wd) * deltaTime else 0)
                           - (if d (keys wd) then rotationSpeed (playerState wd) * deltaTime else 0)"
    and "map_option (\<lambda>m. (x (position m), z (position m))) (playerModel (updatePlayer_rotate deltaTime wd)) =
           Some (x (position pm), z (position pm))"
  using assms by (auto simp: updatePlayer_rotate_def Let_def)

lemma kinematics_move:
  fixes wd :: world and deltaTime :: real
  assumes "playerModel wd \<noteq> None" and "w (keys wd) \<or> s (keys wd)"
  defines "ps' \<equiv> playerState (kinematics deltaTime wd)"
  shows "x (velocity ps') =
           - sin (y (rotation ps'))
             * (if shift (keys wd) then runSpeed (playerState wd) else moveSpeed (playerState wd))
             * (if w (keys wd) then - 1 else 1)"
    and "z (velocity ps') =
           - cos (y (rotation ps'))
             * (if shift (keys wd) then runSpeed (playerState wd) else moveSpeed (playerState wd))
             * (if w (keys wd) then - 1 else 1)"
    and "(if accepted (x (position (playerState wd)) + x (velocity ps') * deltaTime)
                      (z (position (playerState wd)) + z (velocity ps') * deltaTime)
          then x (position ps') = x (position (playerState wd)) + x (velocity ps') * deltaTime \<and>
               z (position ps') = z (position (playerState wd)) + z (velocity ps') * deltaTime
          else x (position ps') = x (position (playerState wd)) \<and>
               z (position ps') = z (position (playerState wd)))"
    and "y (rotation ps') = y (rotation (playerState (updatePlayer_rotate deltaTime wd)))"
    and "map_option (\<lambda>m. (x (position m), z (position m))) (playerModel (kinematics deltaTime wd)) =
           (if accepted (x (position (playerState wd)) + x (velocity ps') * deltaTime)
                        (z (position (playerState wd)) + z (velocity ps') * deltaTime)
            then Some (x (position ps'), z (position ps'))
            else map_option (\<lambda>m. (x (position m), z (position m))) (playerModel wd))"
proof -
  define wd2 where "wd2 = jumpStep deltaTime (updatePlayer_rotate deltaTime wd)"
  define ps2 where "ps2 = playerState wd2"
  define sp where "sp = (if shift (keys wd) then runSpeed (playerState wd) else moveSpeed (playerState wd))"
  define dir :: real where "dir = (if w (keys wd) then - 1 else 1)"
  define vx where "vx = - sin (y (rotation ps2)) * sp * dir"
  define vz where "vz = - cos (y (rotation ps2)) * sp * dir"
  define nx where "nx = x (position (playerState wd)) + vx * deltaTime"
  define nz where "nz = z (position (playerState wd)) + vz * deltaTime"
  have k: "keys wd2 = keys wd"
    and sp2: "moveSpeed ps2 = moveSpeed (playerState wd)" "runSpeed ps2 = runSpeed (playerState wd)"
    and px: "x (position ps2) = x (position (playerState wd))"
            "z (position ps2) = z (position (playerState wd))"
    by (simp_all add: ps2_def wd2_def jumpStep_planar rotate_fields)
  have "map_option rotation (playerModel wd2) = map_option rotation (playerModel (updatePlayer_rotate deltaTime wd))"
    by (simp add: wd2_def jumpStep_planar)
  then have "map_option (\<lambda>pm. y (rotation pm)) (playerModel wd2)
           = map_option (\<lambda>pm. y (rotation pm)) (playerModel (updatePlayer_rotate deltaTime wd))"
    by (cases "playerModel wd2"; cases "playerModel (updatePlayer_rotate deltaTime wd)") auto
  then have "map_option (\<lambda>pm. y (rotation pm)) (playerModel wd2) = Some (y (rotation ps2))"
    using assms(1) by (simp add: rotate_fields) (simp add: ps2_def wd2_def jumpStep_planar)
  then obtain pm where pm: "playerModel wd2 = Some pm" "y (rotation pm) = y (rotation ps2)"
    by auto
  have kin: "kinematics deltaTime wd = fst (updatePlayer_move deltaTime (wd2, False, False))"
    by (simp add: kinematics_def wd2_def)
  have acc: "accepted nx nz \<longleftrightarrow>
      sqrt (nx * nx + nz * nz) > treeRadius \<and> \<bar>nx\<bar> < mapBoundary \<and> \<bar>nz\<bar> < mapBoundary"
    by (simp add: accepted_def)
  have move: "updatePlayer_move deltaTime (wd2, False, False) =
      (if accepted nx nz
       then (wd2\<lparr>playerState := ps2\<lparr>velocity := (velocity ps2)\<lparr>x := vx, z := vz\<rparr>,
                                       position := (position ps2)\<lparr>x := nx, z := nz\<rparr>\<rparr>,
                  playerModel := Some (pm\<lparr>position := (position pm)\<lparr>x := nx, z := nz\<rparr>\<rparr>)\<rparr>,
             True, shift (keys wd))
       else (wd2\<lparr>playerState := ps2\<lparr>velocity := (velocity ps2)\<lparr>x := vx, z := vz\<rparr>\<rparr>\<rparr>,
             True, shift (keys wd)))"
  proof (cases "accepted nx nz")
    case True
    then show ?thesis
      using assms(2) pm unfolding acc
      by (auto simp: updatePlayer_move_def Let_def k sp2 px ps2_def [symmetric] nx_def nz_def vx_def vz_def sp_def dir_def
            split: if_splits)
  next
    case False
    then show ?thesis
      using assms(2) pm unfolding acc
      by (auto simp: updatePlayer_move_def Let_def k sp2 px ps2_def [symmetric] nx_def nz_def vx_def vz_def sp_def dir_def
            split: if_splits)
  qed
  have ps': "ps' = (if accepted nx nz
       then ps2\<lparr>velocity := (velocity ps2)\<lparr>x := vx, z := vz\<rparr>,
                 position := (position ps2)\<lparr>x := nx, z := nz\<rparr>\<rparr>
       else ps2\<lparr>velocity := (velocity ps2)\<lparr>x := vx, z := vz\<rparr>\<rparr>)"
    by (simp add: ps'_def kin move)
  have rot: "y (rotation ps') = y (rotation ps2)" by (simp add: ps')
  have vel: "x (velocity ps') = vx" "z (velocity ps') = vz" by (simp_all add: ps')
  show "x (velocity ps') = - sin (y (rotation ps'))
             * (if shift (keys wd) then runSpeed (playerState wd) else moveSpeed (playerState wd))
             * (if w (keys wd) then - 1 else 1)"
    unfolding vel rot by (simp add: vx_def sp_def dir_def)
  show "z (velocity ps') = - cos (y (rotation ps'))
             * (if shift (keys wd) then runSpeed (playerState wd) else moveSpeed (playerState wd))
             * (if w (keys wd) then - 1 else 1)"
    unfolding vel rot by (simp add: vz_def sp_def dir_def)
  show "(if accepted (x (position (playerState wd)) + x (velocity ps') * deltaTime)
                      (z (position (playerState wd)) + z (velocity ps') * deltaTime)
          then x (position ps') = x (position (playerState wd)) + x (velocity ps') * deltaTime \<and>
               z (position ps') = z (position (playerState wd)) + z (velocity ps') * deltaTime
          else x (position ps') = x (position (playerState wd)) \<and>
               z (position ps') = z (position (playerState wd)))"
    unfolding vel nx_def [symmetric] nz_def [symmetric]
    by (simp add: ps' px)
  show "y (rotation ps') = y (rotation (playerState (updatePlayer_rotate deltaTime wd)))"
    unfolding rot by (simp add: ps2_def wd2_def jumpStep_planar)
  have planar: "map_option (\<lambda>m. (x (position m), z (position m))) (playerModel wd) =
      Some (x (position pm), z (position pm))"
  proof -
    obtain pm0 where pm0: "playerModel wd = Some pm0" using assms(1) by auto
    have "map_option (\<lambda>m. (x (position m), z (position m))) (playerModel wd2) =
        Some (x (position pm0), z (position pm0))"
      by (simp add: wd2_def jumpStep_model_planar rotate_heading(2) [OF pm0])
    then show ?thesis by (simp add: pm pm0)
  qed
  show "map_option (\<lambda>m. (x (position m), z (position m))) (playerModel (kinematics deltaTime wd)) =
           (if accepted (x (position (playerState wd)) + x (velocity ps') * deltaTime)
                        (z (position (playerState wd)) + z (velocity ps') * deltaTime)
            then Some (x (position ps'), z (position ps'))
            else map_option (\<lambda>m. (x (position m), z (position m))) (playerModel wd))"
    unfolding vel nx_def [symmetric] nz_def [symmetric] planar
    by (simp add: ps' kin move pm)
qed

lemma animations_update [simp]:
  "animations ch (wd\<lparr>playerState := ps\<rparr>) = animations ch wd"
  "animations ch (wd\<lparr>enemyState := es\<rparr>) = animations ch wd"
  "animations ch (wd\<lparr>playerModel := pm\<rparr>) = animations ch wd"
  "animations ch (wd\<lparr>enemyModel := em\<rparr>) = animations ch wd"
  "animations ch (wd\<lparr>keys := ks\<rparr>) = animations ch wd"
  "animations ch (wd\<lparr>timers := ts\<rparr>) = animations ch wd"
  by (simp_all add: animations_def animationsRef_def)

lemma clear_of_tree: "7 / 10 < sqrt 113"
  by (rule real_less_rsqrt) (simp add: power2_eq_square)

lemma walking_state:
  "playerModel walking = Some \<lparr>position = vec (- 8) 0 (- 8), rotation = vec 0 0 0\<rparr>"
  "playerState walking = initialPlayerState"
  "keys walking = \<lparr>w = True, a = False, s = False, d = False, space = False, shift = False, f = False\<rparr>"
  "animations Player walking = Map.empty"
  by (simp_all add: walking_def classify_eval keydown_def placedModel_def initialPlayerState_def)

lemma shiftNoRun_state:
  "playerModel shiftNoRun = Some \<lparr>position = vec (- 8) 0 (- 8), rotation = vec 0 0 0\<rparr>"
  "playerState shiftNoRun = initialPlayerState"
  "keys shiftNoRun = \<lparr>w = True, a = False, s = False, d = False, space = False, shift = True, f = False\<rparr>"
  "animations Player shiftNoRun = Map.empty"
  by (simp_all add: shiftNoRun_def classify_eval keydown_def placedModel_def initialPlayerState_def)

lemma updateEnemy_follow_move:
  fixes wd :: world and deltaTime :: real and direction0 :: vec3 and em :: transform
  defines "es' \<equiv> enemyState (updateEnemy_follow deltaTime direction0 em wd)"
  shows "x (velocity es') = - sin (y (rotation es')) * moveSpeed (enemyState wd) * - 1"
    and "z (velocity es') = - cos (y (rotation es')) * moveSpeed (enemyState wd) * - 1"
    and "(if accepted (x (position (enemyState wd)) + x (velocity es') * deltaTime)
                      (z (position (enemyState wd)) + z (velocity es') * deltaTime)
          then x (position es') = x (position (enemyState wd)) + x (velocity es') * deltaTime \<and>
               z (position es') = z (position (enemyState wd)) + z (velocity es') * deltaTime
          else x (position es') = x (position (enemyState wd)) \<and>
               z (position es') = z (position (enemyState wd)))"
    and "y (position es') = y (position (enemyState wd))"
    and "map_option (\<lambda>m. (x (position m), z (position m)))
           (enemyModel (updateEnemy_follow deltaTime direction0 em wd)) =
           Some (if accepted (x (position (enemyState wd)) + x (velocity es') * deltaTime)
                             (z (position (enemyState wd)) + z (velocity es') * deltaTime)
                 then (x (position es'), z (position es'))
                 else (x (position em), z (position em)))"
proof -
  define es where "es = enemyState wd"
  define hd where "hd = rotateToward (atan2 (x (normalize direction0)) (z (normalize direction0))) (y (rotation em)) deltaTime"
  define vx where "vx = - sin hd * moveSpeed es * - 1"
  define vz where "vz = - cos hd * moveSpeed es * - 1"
  define nx where "nx = x (position es) + vx * deltaTime"
  define nz where "nz = z (position es) + vz * deltaTime"
  have acc: "accepted nx nz \<longleftrightarrow>
      sqrt (nx * nx + nz * nz) > treeRadius \<and> \<bar>nx\<bar> < mapBoundary \<and> \<bar>nz\<bar> < mapBoundary"
    by (simp add: accepted_def)
  have es': "es' = (if accepted nx nz
       then es\<lparr>rotation := (rotation es)\<lparr>y := hd\<rparr>, velocity := (velocity es)\<lparr>x := vx, z := vz\<rparr>,
                position := (position es)\<lparr>x := nx, z := nz\<rparr>\<rparr>
       else es\<lparr>rotation := (rotation es)\<lparr>y := hd\<rparr>, velocity := (velocity es)\<lparr>x := vx, z := vz\<rparr>\<rparr>)"
  proof (cases "accepted nx nz")
    case True
    then show ?thesis
      unfolding acc
      by (simp add: es'_def updateEnemy_follow_def Let_def es_def [symmetric] hd_def [symmetric] nx_def nz_def vx_def vz_def)
  next
    case False
    then show ?thesis
      unfolding acc
      by (auto simp: es'_def updateEnemy_follow_def Let_def es_def [symmetric] hd_def [symmetric] nx_def nz_def vx_def vz_def)
  qed
  have rot: "y (rotation es') = hd" by (simp add: es')
  have vel: "x (velocity es') = vx" "z (velocity es') = vz" by (simp_all add: es')
  show "x (velocity es') = - sin (y (rotation es')) * moveSpeed (enemyState wd) * - 1"
    unfolding vel rot by (simp add: vx_def es_def)
  show "z (velocity es') = - cos (y (rotation es')) * moveSpeed (enemyState wd) * - 1"
    unfolding vel rot by (simp add: vz_def es_def)
  show "(if accepted (x (position (enemyState wd)) + x (velocity es') * deltaTime)
                      (z (position (enemyState wd)) + z (velocity es') * deltaTime)
          then x (position es') = x (position (enemyState wd)) + x (velocity es') * deltaTime \<and>
               z (position es') = z (position (enemyState wd)) + z (velocity es') * deltaTime
          else x (position es') = x (position (enemyState wd)) \<and>
               z (position es') = z (position (enemyState wd)))"
    unfolding vel es_def [symmetric] nx_def [symmetric] nz_def [symmetric]
    by (simp add: es')
  show "y (position es') = y (position (enemyState wd))"
    by (simp add: es' es_def)
  have em': "map_option (\<lambda>m. (x (position m), z (position m)))
           (enemyModel (updateEnemy_follow deltaTime direction0 em wd)) =
       Some (if accepted nx nz then (nx, nz) else (x (position em), z (position em)))"
  proof (cases "accepted nx nz")
    case True
    then show ?thesis
      unfolding acc
      by (simp add: updateEnemy_follow_def Let_def es_def [symmetric] hd_def [symmetric] nx_def nz_def vx_def vz_def)
  next
    case False
    then show ?thesis
      unfolding acc
      by (auto simp: updateEnemy_follow_def Let_def es_def [symmetric] hd_def [symmetric] nx_def nz_def vx_def vz_def)
  qed
  show "map_option (\<lambda>m. (x (position m), z (position m)))
           (enemyModel (updateEnemy_follow deltaTime direction0 em wd)) =
           Some (if accepted (x (position (enemyState wd)) + x (velocity es') * deltaTime)
                             (z (position (enemyState wd)) + z (velocity es') * deltaTime)
                 then (x (position es'), z (position es'))
                 else (x (position em), z (position em)))"
    unfolding vel es_def [symmetric] nx_def [symmetric] nz_def [symmetric] em'
    by (simp add: es')
qed

lemma updateEnemy_cooldown_fields:
  "position (enemyState (updateEnemy_cooldown deltaTime wd)) = position (enemyState wd)"
  "velocity (enemyState (updateEnemy_cooldown deltaTime wd)) = velocity (enemyState wd)"
  "rotation (enemyState (updateEnemy_cooldown deltaTime wd)) = rotation (enemyState wd)"
  "playerState (updateEnemy_cooldown deltaTime wd) = playerState wd"
  by (simp_all add: updateEnemy_cooldown_def)

lemma enemyKinematics_following:
  assumes "following wd"
  shows "\<exists>em. enemyModel wd = Some em \<and>
     enemyState (enemyKinematics deltaTime wd) =
       enemyState (updateEnemy_cooldown deltaTime
         (updateEnemy_follow deltaTime (subVectors (position (playerState wd)) (position (enemyState wd))) em wd))"
  using assms by (auto simp: following_def enemyKinematics_def Let_def)

lemma updateEnemy_follow_cooldown:
  "attackCooldown (enemyState (updateEnemy_follow deltaTime direction0 em wd)) = attackCooldown (enemyState wd)"
  by (simp add: updateEnemy_follow_def Let_def)

lemma far_apart: "15 \<le> sqrt 648"
  by (rule real_le_rsqrt) simp

lemma bothLoaded_state:
  "enemyModel bothLoaded \<noteq> None" "playerModel bothLoaded \<noteq> None"
  "enemyState bothLoaded = initialEnemyState" "playerState bothLoaded = initialPlayerState"
  "animations Enemy bothLoaded IDLE = None"
  by (simp_all add: bothLoaded_def classify_eval)

lemma following_turnedEnemy: "following turnedEnemy"
  by (simp add: following_def turnedEnemy_def classify_eval initialEnemyState_def initialPlayerState_def
      subVectors_def vlength_def sqrt25)

text \<open>
  Claim C4, as the code has it. On a tick of the player that is not cut short (model
  loaded, not attacking on the ground) with a forward or backward intent, the planar
  speed is \<open>runSpeed\<close> if and only if the run modifier is held, whether or not a \<open>RUN\<close>
  animation is bound, and \<open>moveSpeed\<close> otherwise; the velocity points along
  \<open>(sin heading, cos heading)\<close> when the forward key is held and the opposite way for
  the backward key alone.
\<close>

theorem updatePlayer_speed:
  fixes wd :: world and deltaTime :: real
  assumes "playerModel wd \<noteq> None"
    and "\<not> (isAttacking (playerState wd) \<and> \<not> isJumping (playerState wd))"
    and "w (keys wd) \<or> s (keys wd)"
  shows "\<exists>wd'. updatePlayer deltaTime wd = Inr wd' \<and>
     (let currentSpeed = (if shift (keys wd) then runSpeed (playerState wd) else moveSpeed (playerState wd));
          direction = (if w (keys wd) then - 1 else 1);
          heading = y (rotation (playerState wd'))
      in x (velocity (playerState wd')) = - sin heading * currentSpeed * direction \<and>
         z (velocity (playerState wd')) = - cos heading * currentSpeed * direction)"
proof -
  obtain wd' where u: "updatePlayer deltaTime wd = Inr wd'"
    and an: "animates (kinematics deltaTime wd) wd'"
    using updatePlayer_animates [OF assms(1,2)] by blast
  have eq: "rotation (playerState wd') = rotation (playerState (kinematics deltaTime wd))"
    "velocity (playerState wd') = velocity (playerState (kinematics deltaTime wd))"
    using animates_playerState [OF an] by simp_all
  show ?thesis
    using kinematics_move(1,2) [OF assms(1,3), of deltaTime] u
    by (simp add: eq Let_def)
qed

theorem updatePlayer_speed_witness:
  "playerModel walking \<noteq> None \<and>
   \<not> (isAttacking (playerState walking) \<and> \<not> isJumping (playerState walking)) \<and>
   (w (keys walking) \<or> s (keys walking)) \<and>
   (\<exists>wd'. updatePlayer (1 / 10) walking = Inr wd' \<and>
      x (velocity (playerState wd')) = sin (y (rotation (playerState wd'))) * 5 \<and>
      z (velocity (playerState wd')) = cos (y (rotation (playerState wd'))) * 5)"
  using updatePlayer_speed [of walking "1 / 10"]
  by (simp add: walking_state initialPlayerState_def Let_def)

theorem run_speed_counterexample:
  "animations Player shiftNoRun RUN = None \<and> shift (keys shiftNoRun) \<and>
   moveSpeed (playerState shiftNoRun) = 5 \<and> runSpeed (playerState shiftNoRun) = 10 \<and>
   updatePlayer (1 / 10) shiftNoRun =
     Inr (shiftNoRun\<lparr>playerState := initialPlayerState\<lparr>velocity := vec 0 0 10, position := vec (- 8) 0 (- 7)\<rparr>,
                     playerModel := Some \<lparr>position = vec (- 8) 0 (- 7), rotation = vec 0 0 0\<rparr>\<rparr>)"
proof -
  have "updatePlayer (1 / 10) shiftNoRun =
     Inr (shiftNoRun\<lparr>playerState := initialPlayerState\<lparr>velocity := vec 0 0 10, position := vec (- 8) 0 (- 7)\<rparr>,
                     playerModel := Some \<lparr>position = vec (- 8) 0 (- 7), rotation = vec 0 0 0\<rparr>\<rparr>)"
    using clear_of_tree
    by (simp add: updatePlayer_def updatePlayer_rotate_def updatePlayer_jump_def updatePlayer_move_def
        updatePlayer_animation_def selectAnimation_def shiftNoRun_state initialPlayerState_def Let_def
        treeRadius_def mapBoundary_def vec_def)
  then show ?thesis
    by (simp add: shiftNoRun_state initialPlayerState_def)
qed

lemma accepted_clear:
  assumes "1 \<le> \<bar>px\<bar> \<or> 1 \<le> \<bar>pz\<bar>" and "\<bar>px\<bar> < 25" and "\<bar>pz\<bar> < 25"
  shows "accepted px pz"
proof -
  have "1 \<le> px * px + pz * pz"
  proof -
    have sq: "c * c = \<bar>c\<bar> * \<bar>c\<bar>" for c :: real by simp
    have ge: "1 \<le> \<bar>c\<bar> \<Longrightarrow> 1 \<le> c * c" for c :: real
      unfolding sq [of c] using mult_mono [of 1 "\<bar>c\<bar>" 1 "\<bar>c\<bar>"] by simp
    have nn: "0 \<le> c * c" for c :: real by simp
    from assms(1) show ?thesis
    proof
      assume "1 \<le> \<bar>px\<bar>"
      then show ?thesis using ge [of px] nn [of pz] by linarith
    next
      assume "1 \<le> \<bar>pz\<bar>"
      then show ?thesis using ge [of pz] nn [of px] by linarith
    qed
  qed
  then have s: "1 \<le> sqrt (px * px + pz * pz)" by simp
  have "treeRadius < sqrt (px * px + pz * pz)"
    unfolding treeRadius_def using s by linarith
  then show ?thesis
    unfolding accepted_def mapBoundary_def using assms(2,3) by blast
qed

lemma accepted_inside_tree:
  assumes "px * px + pz * pz \<le> 49 / 100"
  shows "\<not> accepted px pz"
proof -
  have "sqrt (px * px + pz * pz) \<le> 7 / 10"
    by (rule real_le_lsqrt) (use assms in \<open>simp_all add: power2_eq_square\<close>)
  then show ?thesis by (simp add: accepted_def treeRadius_def)
qed

lemma nearTree_state:
  "playerModel nearTree = Some \<lparr>position = vec 0 0 1, rotation = vec 0 0 0\<rparr>"
  "playerState nearTree = initialPlayerState\<lparr>position := vec 0 0 1\<rparr>"
  "keys nearTree = \<lparr>w = False, a = False, s = True, d = False, space = False, shift = False, f = False\<rparr>"
  by (simp_all add: nearTree_def classify_eval keydown_def)

lemma chasing_state:
  "enemyModel chasing = Some \<lparr>position = vec 10 0 10, rotation = vec 0 0 0\<rparr>"
  "playerModel chasing \<noteq> None"
  "enemyState chasing = initialEnemyState"
  "playerState chasing = initialPlayerState\<lparr>position := vec 10 0 15\<rparr>"
  by (simp_all add: chasing_def classify_eval placedModel_def initialEnemyState_def)

lemma chasing_target:
  "subVectors (position (playerState chasing)) (position (enemyState chasing)) = vec 0 0 5"
  "vlength (vec 0 0 5) = 5"
  "normalize (vec 0 0 5) = vec 0 0 1"
  "atan2 0 1 = 0"
  "rotateToward 0 0 deltaTime = 0"
proof -
  show "subVectors (position (playerState chasing)) (position (enemyState chasing)) = vec 0 0 5"
    by (simp add: chasing_state subVectors_def vec_def initialPlayerState_def initialEnemyState_def)
  show len: "vlength (vec 0 0 5) = 5"
    by (simp add: vlength_def sqrt25)
  show "normalize (vec 0 0 5) = vec 0 0 1"
    by (simp add: normalize_def len Let_def)
  show "atan2 0 1 = 0" by (simp add: atan2_def)
  show "rotateToward 0 0 deltaTime = 0"
    using pi_ge_two by (simp add: rotateToward_def angleDiff_cases)
qed

lemma following_chasing: "following chasing"
proof -
  have d: "vlength (subVectors (position (playerState chasing)) (position (enemyState chasing))) = 5"
    by (simp add: chasing_target(1,2))
  have e: "attackDistance (enemyState chasing) = 2" "followDistance (enemyState chasing) = 15"
    "\<not> isAttacking (enemyState chasing)"
    by (simp_all add: chasing_state(3) initialEnemyState_def)
  show ?thesis
    using chasing_state(1,2) e by (simp add: following_def d Let_def)
qed

text \<open>
  Claim C6. For the player (on a tick that is not cut short, with a forward or
  backward intent) and for the enemy (in the band where it follows), the candidate
  position is computed from the state before the tick: the old planar position plus
  the elapsed time times the speed along the heading, where the player's heading is
  the model's heading after this tick's turn by the A and D keys and the enemy's
  heading is the one \<open>rotateToward\<close> gives for the direction of the player. When the
  candidate is \<open>accepted\<close>, it is the new planar position of the state and of the model;
  otherwise both planar positions are the old ones.
\<close>

theorem collision_rule:
  fixes wd :: world and deltaTime :: real and pm em :: transform
  shows
  "(playerModel wd = Some pm \<and> \<not> (isAttacking (playerState wd) \<and> \<not> isJumping (playerState wd)) \<and>
    (w (keys wd) \<or> s (keys wd)) \<longrightarrow>
      (\<exists>wd' pm'. updatePlayer deltaTime wd = Inr wd' \<and> playerModel wd' = Some pm' \<and>
         (let ps = playerState wd;
              heading = y (rotation pm)
                        + (if a (keys wd) then rotationSpeed ps * deltaTime else 0)
                        - (if d (keys wd) then rotationSpeed ps * deltaTime else 0);
              currentSpeed = (if shift (keys wd) then runSpeed ps else moveSpeed ps);
              direction = (if w (keys wd) then - 1 else 1);
              newPosX = x (position ps) + - sin heading * currentSpeed * direction * deltaTime;
              newPosZ = z (position ps) + - cos heading * currentSpeed * direction * deltaTime
          in if accepted newPosX newPosZ
             then x (position (playerState wd')) = newPosX \<and> z (position (playerState wd')) = newPosZ \<and>
                  x (position pm') = newPosX \<and> z (position pm') = newPosZ
             else x (position (playerState wd')) = x (position ps) \<and>
                  z (position (playerState wd')) = z (position ps) \<and>
                  x (position pm') = x (position pm) \<and> z (position pm') = z (position pm)))) \<and>
   (enemyModel wd = Some em \<and> following wd \<longrightarrow>
      (\<exists>wd' em'. updateEnemy deltaTime wd = Inr wd' \<and> enemyModel wd' = Some em' \<and>
         (let es = enemyState wd;
              direction = normalize (subVectors (position (playerState wd)) (position es));
              heading = rotateToward (atan2 (x direction) (z direction)) (y (rotation em)) deltaTime;
              newPosX = x (position es) + - sin heading * moveSpeed es * - 1 * deltaTime;
              newPosZ = z (position es) + - cos heading * moveSpeed es * - 1 * deltaTime
          in if accepted newPosX newPosZ
             then x (position (enemyState wd')) = newPosX \<and> z (position (enemyState wd')) = newPosZ \<and>
                  x (position em') = newPosX \<and> z (position em') = newPosZ
             else x (position (enemyState wd')) = x (position es) \<and>
                  z (position (enemyState wd')) = z (position es) \<and>
                  x (position em') = x (position em) \<and> z (position em') = z (position em))))"
proof (intro conjI impI)
  assume h: "playerModel wd = Some pm \<and> \<not> (isAttacking (playerState wd) \<and> \<not> isJumping (playerState wd)) \<and>
    (w (keys wd) \<or> s (keys wd))"
  then have pm: "playerModel wd = Some pm" and ne: "playerModel wd \<noteq> None"
    and na: "\<not> (isAttacking (playerState wd) \<and> \<not> isJumping (playerState wd))"
    and ws: "w (keys wd) \<or> s (keys wd)"
    by simp_all
  obtain wd' where u: "updatePlayer deltaTime wd = Inr wd'"
    and an: "animates (kinematics deltaTime wd) wd'"
    using updatePlayer_animates [OF ne na] by blast
  define ps' where "ps' = playerState (kinematics deltaTime wd)"
  define hd where "hd = y (rotation pm)
                        + (if a (keys wd) then rotationSpeed (playerState wd) * deltaTime else 0)
                        - (if d (keys wd) then rotationSpeed (playerState wd) * deltaTime else 0)"
  define sp where "sp = (if shift (keys wd) then runSpeed (playerState wd) else moveSpeed (playerState wd))"
  define dir :: real where "dir = (if w (keys wd) then - 1 else 1)"
  define nx where "nx = x (position (playerState wd)) + - sin hd * sp * dir * deltaTime"
  define nz where "nz = z (position (playerState wd)) + - cos hd * sp * dir * deltaTime"
  have eq: "position (playerState wd') = position ps'" "playerModel wd' = playerModel (kinematics deltaTime wd)"
    using animates_playerState [OF an] by (simp_all add: ps'_def)
  have rot: "y (rotation ps') = hd"
    using kinematics_move(4) [OF ne ws, of deltaTime] rotate_heading(1) [OF pm, of deltaTime]
    by (simp add: ps'_def hd_def)
  have vel: "x (velocity ps') = - sin hd * sp * dir" "z (velocity ps') = - cos hd * sp * dir"
    using kinematics_move(1,2) [OF ne ws, of deltaTime]
    unfolding ps'_def [symmetric] rot sp_def [symmetric] dir_def [symmetric] by simp_all
  have pos: "if accepted nx nz
          then x (position ps') = nx \<and> z (position ps') = nz
          else x (position ps') = x (position (playerState wd)) \<and>
               z (position ps') = z (position (playerState wd))"
    using kinematics_move(3) [OF ne ws, of deltaTime]
    unfolding ps'_def [symmetric] vel nx_def [symmetric] nz_def [symmetric] .
  have model: "map_option (\<lambda>m. (x (position m), z (position m))) (playerModel (kinematics deltaTime wd)) =
           (if accepted nx nz then Some (x (position ps'), z (position ps'))
            else Some (x (position pm), z (position pm)))"
    using kinematics_move(5) [OF ne ws, of deltaTime]
    unfolding ps'_def [symmetric] vel nx_def [symmetric] nz_def [symmetric] by (simp add: pm)
  then obtain pm' where pm': "playerModel (kinematics deltaTime wd) = Some pm'"
    by (cases "playerModel (kinematics deltaTime wd)") (auto split: if_splits)
  have "if accepted nx nz
        then x (position (playerState wd')) = nx \<and> z (position (playerState wd')) = nz \<and>
             x (position pm') = nx \<and> z (position pm') = nz
        else x (position (playerState wd')) = x (position (playerState wd)) \<and>
             z (position (playerState wd')) = z (position (playerState wd)) \<and>
             x (position pm') = x (position pm) \<and> z (position pm') = z (position pm)"
    using pos model by (auto simp: eq pm' split: if_splits)
  then show "\<exists>wd' pm'. updatePlayer deltaTime wd = Inr wd' \<and> playerModel wd' = Some pm' \<and>
         (let ps = playerState wd;
              heading = y (rotation pm)
                        + (if a (keys wd) then rotationSpeed ps * deltaTime else 0)
                        - (if d (keys wd) then rotationSpeed ps * deltaTime else 0);
              currentSpeed = (if shift (keys wd) then runSpeed ps else moveSpeed ps);
              direction = (if w (keys wd) then - 1 else 1);
              newPosX = x (position ps) + - sin heading * currentSpeed * direction * deltaTime;
              newPosZ = z (position ps) + - cos heading * currentSpeed * direction * deltaTime
          in if accepted newPosX newPosZ
             then x (position (playerState wd')) = newPosX \<and> z (position (playerState wd')) = newPosZ \<and>
                  x (position pm') = newPosX \<and> z (position pm') = newPosZ
             else x (position (playerState wd')) = x (position ps) \<and>
                  z (position (playerState wd')) = z (position ps) \<and>
                  x (position pm') = x (position pm) \<and> z (position pm') = z (position pm))"
    unfolding Let_def hd_def [symmetric] sp_def [symmetric] dir_def [symmetric]
      nx_def [symmetric] nz_def [symmetric]
    using u eq(2) pm' by auto
next
  assume h: "enemyModel wd = Some em \<and> following wd"
  then have em: "enemyModel wd = Some em" and f: "following wd" by simp_all
  obtain wd' where u: "updateEnemy deltaTime wd = Inr wd'"
    and ac: "acts (enemyKinematics deltaTime wd) wd'"
    using updateEnemy_acts by blast
  define dir0 where "dir0 = subVectors (position (playerState wd)) (position (enemyState wd))"
  define wd1 where "wd1 = updateEnemy_follow deltaTime dir0 em wd"
  define es' where "es' = enemyState wd1"
  define hd where "hd = rotateToward (atan2 (x (normalize dir0)) (z (normalize dir0))) (y (rotation em)) deltaTime"
  define nx where "nx = x (position (enemyState wd)) + - sin hd * moveSpeed (enemyState wd) * - 1 * deltaTime"
  define nz where "nz = z (position (enemyState wd)) + - cos hd * moveSpeed (enemyState wd) * - 1 * deltaTime"
  have ek: "enemyKinematics deltaTime wd = updateEnemy_cooldown deltaTime wd1"
    using f em by (auto simp: following_def enemyKinematics_def Let_def wd1_def dir0_def)
  have eq: "position (enemyState wd') = position es'" "enemyModel wd' = enemyModel wd1"
    using acts_fields [OF ac] by (simp_all add: ek updateEnemy_cooldown_fields es'_def updateEnemy_cooldown_def)
  have rot: "y (rotation es') = hd"
    by (simp add: es'_def wd1_def hd_def updateEnemy_follow_rotation)
  have vel: "x (velocity es') = - sin hd * moveSpeed (enemyState wd) * - 1"
    "z (velocity es') = - cos hd * moveSpeed (enemyState wd) * - 1"
    using updateEnemy_follow_move(1,2) [of deltaTime dir0 em wd]
    unfolding wd1_def [symmetric] es'_def [symmetric] rot by simp_all
  have pos: "if accepted nx nz
          then x (position es') = nx \<and> z (position es') = nz
          else x (position es') = x (position (enemyState wd)) \<and>
               z (position es') = z (position (enemyState wd))"
    using updateEnemy_follow_move(3) [of wd deltaTime dir0 em]
    unfolding wd1_def [symmetric] es'_def [symmetric] vel nx_def [symmetric] nz_def [symmetric] .
  have model: "map_option (\<lambda>m. (x (position m), z (position m))) (enemyModel wd1) =
           Some (if accepted nx nz then (x (position es'), z (position es'))
                 else (x (position em), z (position em)))"
    using updateEnemy_follow_move(5) [of deltaTime dir0 em wd]
    unfolding wd1_def [symmetric] es'_def [symmetric] vel nx_def [symmetric] nz_def [symmetric] .
  then obtain em' where em': "enemyModel wd1 = Some em'"
    by (cases "enemyModel wd1") auto
  have "if accepted nx nz
        then x (position (enemyState wd')) = nx \<and> z (position (enemyState wd')) = nz \<and>
             x (position em') = nx \<and> z (position em') = nz
        else x (position (enemyState wd')) = x (position (enemyState wd)) \<and>
             z (position (enemyState wd')) = z (position (enemyState wd)) \<and>
             x (position em') = x (position em) \<and> z (position em') = z (position em)"
    using pos model by (auto simp: eq em' split: if_splits)
  then show "\<exists>wd' em'. updateEnemy deltaTime wd = Inr wd' \<and> enemyModel wd' = Some em' \<and>
         (let es = enemyState wd;
              direction = normalize (subVectors (position (playerState wd)) (position es));
              heading = rotateToward (atan2 (x direction) (z direction)) (y (rotation em)) deltaTime;
              newPosX = x (position es) + - sin heading * moveSpeed es * - 1 * deltaTime;
              newPosZ = z (position es) + - cos heading * moveSpeed es * - 1 * deltaTime
          in if accepted newPosX newPosZ
             then x (position (enemyState wd')) = newPosX \<and> z (position (enemyState wd')) = newPosZ \<and>
                  x (position em') = newPosX \<and> z (position em') = newPosZ
             else x (position (enemyState wd')) = x (position es) \<and>
                  z (position (enemyState wd')) = z (position es) \<and>
                  x (position em') = x (position em) \<and> z (position em') = z (position em))"
    unfolding Let_def dir0_def [symmetric] hd_def [symmetric] nx_def [symmetric] nz_def [symmetric]
    using u eq(2) em' by auto
qed

theorem collision_rule_witness:
  "(playerModel walking = Some \<lparr>position = vec (- 8) 0 (- 8), rotation = vec 0 0 0\<rparr> \<and>
    \<not> (isAttacking (playerState walking) \<and> \<not> isJumping (playerState walking)) \<and>
    (w (keys walking) \<or> s (keys walking)) \<and> accepted (- 8) (- (15 / 2)) \<and>
    (\<exists>wd' pm'. updatePlayer (1 / 10) walking = Inr wd' \<and> playerModel wd' = Some pm' \<and>
       x (position (playerState walking)) = - 8 \<and> z (position (playerState walking)) = - 8 \<and>
       x (position (playerState wd')) = - 8 \<and> z (position (playerState wd')) = - (15 / 2) \<and>
       x (position pm') = - 8 \<and> z (position pm') = - (15 / 2))) \<and>
   (playerModel nearTree = Some \<lparr>position = vec 0 0 1, rotation = vec 0 0 0\<rparr> \<and>
    \<not> (isAttacking (playerState nearTree) \<and> \<not> isJumping (playerState nearTree)) \<and>
    (w (keys nearTree) \<or> s (keys nearTree)) \<and> \<not> accepted 0 (1 / 2) \<and>
    (\<exists>wd' pm'. updatePlayer (1 / 10) nearTree = Inr wd' \<and> playerModel wd' = Some pm' \<and>
       x (position (playerState wd')) = 0 \<and> z (position (playerState wd')) = 1 \<and>
       x (position pm') = 0 \<and> z (position pm') = 1)) \<and>
   (enemyModel chasing = Some \<lparr>position = vec 10 0 10, rotation = vec 0 0 0\<rparr> \<and>
    following chasing \<and> accepted 10 11 \<and>
    (\<exists>wd' em'. updateEnemy (1 / 3) chasing = Inr wd' \<and> enemyModel wd' = Some em' \<and>
       x (position (enemyState chasing)) = 10 \<and> z (position (enemyState chasing)) = 10 \<and>
       x (position (enemyState wd')) = 10 \<and> z (position (enemyState wd')) = 11 \<and>
       x (position em') = 10 \<and> z (position em') = 11))"
proof -
  have a1: "accepted (- 8) (- (15 / 2))" by (rule accepted_clear) simp_all
  have a2: "\<not> accepted 0 (1 / 2)" by (rule accepted_inside_tree) simp
  have a3: "accepted 10 11" by (rule accepted_clear) simp_all
  have p1: "\<exists>wd' pm'. updatePlayer (1 / 10) walking = Inr wd' \<and> playerModel wd' = Some pm' \<and>
       x (position (playerState wd')) = - 8 \<and> z (position (playerState wd')) = - (15 / 2) \<and>
       x (position pm') = - 8 \<and> z (position pm') = - (15 / 2)"
    using collision_rule [where wd = walking and deltaTime = "1 / 10"
        and pm = "\<lparr>position = vec (- 8) 0 (- 8), rotation = vec 0 0 0\<rparr>"
        and em = "\<lparr>position = vec 10 0 10, rotation = vec 0 0 0\<rparr>", THEN conjunct1] a1
    by (simp add: walking_state initialPlayerState_def Let_def)
  have p2: "\<exists>wd' pm'. updatePlayer (1 / 10) nearTree = Inr wd' \<and> playerModel wd' = Some pm' \<and>
       x (position (playerState wd')) = 0 \<and> z (position (playerState wd')) = 1 \<and>
       x (position pm') = 0 \<and> z (position pm') = 1"
    using collision_rule [where wd = nearTree and deltaTime = "1 / 10"
        and pm = "\<lparr>position = vec 0 0 1, rotation = vec 0 0 0\<rparr>"
        and em = "\<lparr>position = vec 10 0 10, rotation = vec 0 0 0\<rparr>", THEN conjunct1] a2
    by (simp add: nearTree_state initialPlayerState_def Let_def)
  have p3: "\<exists>wd' em'. updateEnemy (1 / 3) chasing = Inr wd' \<and> enemyModel wd' = Some em' \<and>
       x (position (enemyState wd')) = 10 \<and> z (position (enemyState wd')) = 11 \<and>
       x (position em') = 10 \<and> z (position em') = 11"
    using collision_rule [where wd = chasing and deltaTime = "1 / 3"
        and pm = "\<lparr>position = vec (- 8) 0 (- 8), rotation = vec 0 0 0\<rparr>"
        and em = "\<lparr>position = vec 10 0 10, rotation = vec 0 0 0\<rparr>", THEN conjunct2]
      a3 following_chasing
    by (simp add: chasing_state(1) chasing_target Let_def cong: if_cong)
       (simp add: chasing_state(3) initialEnemyState_def)
  show ?thesis
    using a1 a2 a3 p1 p2 p3 following_chasing
    by (simp add: walking_state nearTree_state chasing_state(1,3) initialPlayerState_def initialEnemyState_def)
qed

text \<open>
  Claim C5, as the code has it. On a tick of the enemy that runs (both models loaded,
  enemy not attacking), in every distance band, \<open>attackCooldown\<close> is lowered by the
  elapsed time when it is positive after the band's action, and it may end below
  zero; a cooldown that is zero or negative is left as it is. On a tick while the
  enemy is attacking, or with a model missing, \<open>updateEnemy\<close> returns at once and the
  cooldown keeps its value.
\<close>

theorem cooldown_update:
  "\<exists>wd'. updateEnemy deltaTime wd = Inr wd' \<and>
     attackCooldown (enemyState wd') =
       (if enemyModel wd = None \<or> playerModel wd = None \<or> isAttacking (enemyState wd)
        then attackCooldown (enemyState wd)
        else let distance = vlength (subVectors (position (playerState wd)) (position (enemyState wd)));
                 cooldown = (if distance < attackDistance (enemyState wd) \<and> attackCooldown (enemyState wd) \<le> 0
                             then 2 else attackCooldown (enemyState wd))
             in if cooldown > 0 then cooldown - deltaTime else cooldown)"
proof -
  obtain wd' where u: "updateEnemy deltaTime wd = Inr wd'"
    and ac: "acts (enemyKinematics deltaTime wd) wd'"
    using updateEnemy_acts by blast
  have "attackCooldown (enemyState (enemyKinematics deltaTime wd)) =
       (if enemyModel wd = None \<or> playerModel wd = None \<or> isAttacking (enemyState wd)
        then attackCooldown (enemyState wd)
        else let distance = vlength (subVectors (position (playerState wd)) (position (enemyState wd)));
                 cooldown = (if distance < attackDistance (enemyState wd) \<and> attackCooldown (enemyState wd) \<le> 0
                             then 2 else attackCooldown (enemyState wd))
             in if cooldown > 0 then cooldown - deltaTime else cooldown)"
    by (auto simp: enemyKinematics_def Let_def updateEnemy_cooldown_def updateEnemy_follow_cooldown
          split: option.splits)
  then show ?thesis
    using u acts_fields(10) [OF ac] by simp
qed

theorem cooldown_update_witness:
  "\<exists>wd'. updateEnemy (1 / 2) cooling = Inr wd' \<and> attackCooldown (enemyState wd') = - (1 / 4)"
proof -
  have "vlength (subVectors (position (playerState cooling)) (position (enemyState cooling))) = sqrt 648"
    by (simp add: cooling_def bothLoaded_state initialPlayerState_def initialEnemyState_def subVectors_def vlength_def)
  then show ?thesis
    using cooldown_update [of "1 / 2" cooling] far_apart bothLoaded_state(1,2)
    by (auto simp: cooling_def bothLoaded_state(3,4) initialEnemyState_def Let_def)
qed

theorem cooldown_counterexample:
  "updateEnemy (1 / 2) midAttack = Inr midAttack \<and> attackCooldown (enemyState midAttack) = 2 \<and>
   updateEnemy (1 / 2) bothLoaded = Inr bothLoaded \<and> attackCooldown (enemyState bothLoaded) = 0"
proof -
  have "updateEnemy (1 / 2) midAttack = Inr midAttack"
    by (simp add: updateEnemy_def midAttack_def split: option.splits)
  moreover have "attackCooldown (enemyState midAttack) = 2"
    by (simp add: midAttack_def)
  moreover have "vlength (subVectors (position (playerState bothLoaded)) (position (enemyState bothLoaded))) = sqrt 648"
    by (simp add: bothLoaded_state initialPlayerState_def initialEnemyState_def subVectors_def vlength_def)
  then have "updateEnemy (1 / 2) bothLoaded = Inr bothLoaded"
    using far_apart bothLoaded_state(1,2,5)
    by (auto simp: updateEnemy_def Let_def bothLoaded_state(3,4) initialEnemyState_def setAnimation_def
          updateEnemy_cooldown_def split: option.splits)
  moreover have "attackCooldown (enemyState bothLoaded) = 0"
    by (simp add: bothLoaded_state initialEnemyState_def)
  ultimately show ?thesis by simp
qed

subsection \<open>Height and the jumping flag\<close>

lemma consistent_vertical: "vertical wd' = vertical wd \<Longrightarrow> consistent wd' = consistent wd"
  by (simp add: vertical_def consistent_def)

lemma vertical_acts: "acts wd wd' \<Longrightarrow> vertical wd' = vertical wd"
  by (erule actsE) (simp add: vertical_def)

lemma vertical_animates: "animates wd wd' \<Longrightarrow> vertical wd' = vertical wd"
  by (rule vertical_acts [OF animates_acts])

lemma vertical_call [simp]: "vertical (call c wd) = vertical wd"
  by (simp add: vertical_def call_def)

lemma vertical_rotate [simp]: "vertical (updatePlayer_rotate deltaTime wd) = vertical wd"
  by (simp add: vertical_def updatePlayer_rotate_def Let_def split: option.splits)

lemma vertical_move [simp]: "vertical (fst (updatePlayer_move deltaTime fr)) = vertical (fst fr)"
  by (cases fr) (simp add: vertical_def updatePlayer_move_def Let_def split: option.splits)

lemma consistent_jumpStep: "consistent wd \<Longrightarrow> consistent (jumpStep deltaTime wd)"
  by (simp add: consistent_def jumpStep_def Let_def)

lemma consistent_kinematics: "consistent wd \<Longrightarrow> consistent (kinematics deltaTime wd)"
proof -
  assume c: "consistent wd"
  have "consistent (updatePlayer_rotate deltaTime wd)"
    using c consistent_vertical [OF vertical_rotate] by simp
  then have "consistent (jumpStep deltaTime (updatePlayer_rotate deltaTime wd))"
    by (rule consistent_jumpStep)
  then show ?thesis
    unfolding kinematics_def using consistent_vertical [OF vertical_move] by simp
qed

lemma vertical_follow [simp]:
  "vertical (updateEnemy_follow deltaTime direction0 em wd) = vertical wd"
  by (simp add: vertical_def updateEnemy_follow_def Let_def)

lemma vertical_cooldown [simp]: "vertical (updateEnemy_cooldown deltaTime wd) = vertical wd"
  by (simp add: vertical_def updateEnemy_cooldown_def)

lemma vertical_enemyKinematics [simp]: "vertical (enemyKinematics deltaTime wd) = vertical wd"
  by (simp add: enemyKinematics_def Let_def split: option.splits) (simp add: vertical_def)

lemma updatePlayer_consistent:
  "\<exists>wd'. updatePlayer deltaTime wd = Inr wd' \<and> (consistent wd \<longrightarrow> consistent wd')"
proof (cases "playerModel wd = None \<or> (isAttacking (playerState wd) \<and> \<not> isJumping (playerState wd))")
  case True
  then show ?thesis using updatePlayer_skip [of wd deltaTime] by simp
next
  case False
  then obtain wd' where u: "updatePlayer deltaTime wd = Inr wd'"
    and an: "animates (kinematics deltaTime wd) wd'"
    using updatePlayer_animates [of wd deltaTime] by blast
  show ?thesis
    using u consistent_vertical [OF vertical_animates [OF an]] consistent_kinematics [of wd deltaTime]
    by simp
qed

lemma updateEnemy_consistent:
  "\<exists>wd'. updateEnemy deltaTime wd = Inr wd' \<and> (consistent wd \<longrightarrow> consistent wd')"
proof -
  obtain wd' where u: "updateEnemy deltaTime wd = Inr wd'"
    and ac: "acts (enemyKinematics deltaTime wd) wd'"
    using updateEnemy_acts by blast
  have "vertical wd' = vertical wd" using vertical_acts [OF ac] by simp
  then have "consistent wd' = consistent wd" by (rule consistent_vertical)
  then show ?thesis using u by simp
qed

lemma animate_consistent:
  "\<exists>wd'. animate deltaTime wd = Inr wd' \<and> (consistent wd \<longrightarrow> consistent wd')"
proof -
  define wd2 where "wd2 =
    (let wd1 = (if playerMixer wd \<noteq> None then call (Update Player deltaTime) wd else wd)
     in if enemyMixer wd1 \<noteq> None then call (Update Enemy deltaTime) wd1 else wd1)"
  have v: "vertical wd2 = vertical wd" by (simp add: wd2_def Let_def)
  obtain wd3 where p: "updatePlayer deltaTime wd2 = Inr wd3" "consistent wd2 \<longrightarrow> consistent wd3"
    using updatePlayer_consistent by blast
  obtain wd4 where e: "updateEnemy deltaTime wd3 = Inr wd4" "consistent wd3 \<longrightarrow> consistent wd4"
    using updateEnemy_consistent by blast
  have "animate deltaTime wd = Inr wd4"
    using p(1) e(1) by (simp add: animate_def wd2_def Let_def)
  then show ?thesis
    using p(2) e(2) consistent_vertical [OF v] by simp
qed

lemma performAttack_consistent:
  "\<exists>wd'. performAttack ch wd = Inr wd' \<and> (consistent wd \<longrightarrow> consistent wd')"
proof -
  obtain wd' where p: "performAttack ch wd = Inr wd'" and ac: "acts wd wd'"
    using performAttack_acts by blast
  have "consistent wd' = consistent wd"
    by (rule consistent_vertical [OF vertical_acts [OF ac]])
  then show ?thesis using p by simp
qed

lemma performJump_consistent:
  "\<exists>wd'. performJump wd = Inr wd' \<and> (consistent wd \<longrightarrow> consistent wd')"
proof (cases "isJumping (playerState wd)")
  case True
  then show ?thesis by (simp add: performJump_def)
next
  case False
  define wd1 where "wd1 = wd\<lparr>playerState :=
     (playerState wd)\<lparr>isJumping := True,
                        velocity := (velocity (playerState wd))\<lparr>y := jumpSpeed (playerState wd)\<rparr>\<rparr>\<rparr>"
  have c1: "consistent wd \<longrightarrow> consistent wd1" by (simp add: consistent_def wd1_def)
  have an: "animates wd1 (setAnimation_world Player JUMP wd1)" by (rule animates_setAnimation_world)
  have c2: "consistent (setAnimation_world Player JUMP wd1) = consistent wd1"
    by (rule consistent_vertical [OF vertical_animates [OF an]])
  have "performJump wd = Inr wd1 \<or> performJump wd = Inr (setAnimation_world Player JUMP wd1)"
    using False by (simp add: performJump_def Let_def wd1_def [symmetric] setAnimation_eq)
  then show ?thesis using c1 c2 by auto
qed

lemma keydown_consistent:
  "\<exists>wd'. keydown k wd = Inr wd' \<and> (consistent wd \<longrightarrow> consistent wd')"
proof (cases k)
  case Key_space
  define wd1 where "wd1 = wd\<lparr>keys := (keys wd)\<lparr>space := True\<rparr>\<rparr>"
  have c: "consistent wd1 = consistent wd" by (simp add: consistent_def wd1_def)
  obtain wd' where j: "performJump wd1 = Inr wd'" "consistent wd1 \<longrightarrow> consistent wd'"
    using performJump_consistent by blast
  have "keydown k wd = Inr wd1 \<or> keydown k wd = Inr wd'"
    using j(1) by (simp add: Key_space keydown_def Let_def wd1_def [symmetric])
  then show ?thesis using c j(2) by auto
next
  case Key_f
  define wd1 where "wd1 = wd\<lparr>keys := (keys wd)\<lparr>f := True\<rparr>\<rparr>"
  have c: "consistent wd1 = consistent wd" by (simp add: consistent_def wd1_def)
  obtain wd' where p: "performAttack Player wd1 = Inr wd'" "consistent wd1 \<longrightarrow> consistent wd'"
    using performAttack_consistent by blast
  have "keydown k wd = Inr wd1 \<or> keydown k wd = Inr wd'"
    using p(1) by (simp add: Key_f keydown_def Let_def wd1_def [symmetric])
  then show ?thesis using c p(2) by auto
qed (simp_all add: keydown_def consistent_def)

lemma keyup_consistent: "consistent (keyup k wd) = consistent wd"
  by (cases k) (simp_all add: keyup_def consistent_def)

lemma click_consistent:
  "\<exists>wd'. click wd = Inr wd' \<and> (consistent wd \<longrightarrow> consistent wd')"
proof -
  obtain wd' where p: "performAttack Player wd = Inr wd'" "consistent wd \<longrightarrow> consistent wd'"
    using performAttack_consistent by blast
  have "click wd = Inr wd \<or> click wd = Inr wd'"
    using p(1) by (simp add: click_def)
  then show ?thesis using p(2) by auto
qed

lemma timeout_consistent:
  "\<exists>wd'. handle (Timeout i) wd = Inr wd' \<and> (consistent wd \<longrightarrow> consistent wd')"
proof (cases "i < length (timers wd)")
  case False
  then show ?thesis by simp
next
  case True
  define wd1 where "wd1 = wd\<lparr>timers := take i (timers wd) @ drop (Suc i) (timers wd)\<rparr>"
  have c: "consistent wd1 = consistent wd" by (simp add: consistent_def wd1_def)
  obtain wd' where t: "attackTimeout (timers wd ! i) wd1 = Inr wd'" and ac: "acts wd1 wd'"
    using attackTimeout_acts by blast
  have "consistent wd' = consistent wd1"
    by (rule consistent_vertical [OF vertical_acts [OF ac]])
  then show ?thesis
    using True c t by (simp add: wd1_def [symmetric])
qed

lemma info_mixer_kept [simp]:
  "info_mixer ch (assignClip_world ch' r c wd) = info_mixer ch wd"
  "info_mixer ch (call lc wd) = info_mixer ch wd"
  "info_mixer ch (set_currentAnimation ch' v wd) = info_mixer ch wd"
  by (simp_all add: info_mixer_def assignClip_world_def call_def set_currentAnimation_def
      split: character.splits)

lemma vertical_assignClip_world [simp]:
  "vertical (assignClip_world ch r c wd) = vertical wd"
  by (simp add: vertical_def assignClip_world_def)

lemma vertical_set_currentAnimation [simp]:
  "vertical (set_currentAnimation ch v wd) = vertical wd"
  by (simp add: vertical_def set_currentAnimation_def split: character.splits)

lemma loadCallback_forEach_total:
  assumes "info_mixer ch wd \<noteq> None"
  shows "\<exists>wd'. loadCallback_forEach ch cs wd = Inr wd' \<and> vertical wd' = vertical wd"
  using assms
proof (induction cs arbitrary: wd)
  case Nil
  show ?case by (simp add: loadCallback_forEach_def)
next
  case (Cons c cs)
  have "\<exists>wd1. loadCallback_clip ch wd c = Inr wd1 \<and> info_mixer ch wd1 = info_mixer ch wd \<and>
          vertical wd1 = vertical wd"
    using Cons.prems by (cases "firstFree ch wd c") (simp_all add: loadCallback_clip_firstFree)
  then obtain wd1 where s: "loadCallback_clip ch wd c = Inr wd1"
    and m: "info_mixer ch wd1 = info_mixer ch wd" and v: "vertical wd1 = vertical wd"
    by blast
  obtain wd' where r: "loadCallback_forEach ch cs wd1 = Inr wd'" and v': "vertical wd' = vertical wd1"
    using Cons.IH [of wd1] Cons.prems m by auto
  show ?case
    using s r v v' by (simp add: loadCallback_forEach_def bindE_def)
qed

lemma processModelAnimations_forEach_total:
  assumes "info_mixer ch wd \<noteq> None"
  shows "\<exists>wd' fnd'. forEach (processModelAnimations_clip ch) cs (wd, fnd) = Inr (wd', fnd') \<and>
           info_mixer ch wd' = info_mixer ch wd \<and> vertical wd' = vertical wd"
  using assms
proof (induction cs arbitrary: wd fnd)
  case Nil
  show ?case by simp
next
  case (Cons c cs)
  have "\<exists>wd1 fnd1. processModelAnimations_clip ch (wd, fnd) c = Inr (wd1, fnd1) \<and>
          info_mixer ch wd1 = info_mixer ch wd \<and> vertical wd1 = vertical wd"
    using Cons.prems by (cases "firstMatch c") (auto simp: processModelAnimations_clip_firstMatch)
  then obtain wd1 fnd1 where s: "processModelAnimations_clip ch (wd, fnd) c = Inr (wd1, fnd1)"
    and m: "info_mixer ch wd1 = info_mixer ch wd" and v: "vertical wd1 = vertical wd"
    by blast
  obtain wd' fnd' where r: "forEach (processModelAnimations_clip ch) cs (wd1, fnd1) = Inr (wd', fnd')"
    and m': "info_mixer ch wd' = info_mixer ch wd1" and v': "vertical wd' = vertical wd1"
    using Cons.IH [of wd1 fnd1] Cons.prems m by auto
  show ?case
    using s r m m' v v' by (simp add: bindE_def)
qed

lemma processModelAnimations_total:
  assumes "info_mixer ch wd \<noteq> None"
  shows "\<exists>wd'. processModelAnimations cs ch wd = Inr wd' \<and> vertical wd' = vertical wd"
proof -
  obtain wd1 fnd1 where r: "forEach (processModelAnimations_clip ch) cs (wd, False) = Inr (wd1, fnd1)"
    and m: "info_mixer ch wd1 = info_mixer ch wd" and v: "vertical wd1 = vertical wd"
    using processModelAnimations_forEach_total [OF assms] by blast
  show ?thesis
    using assms m v by (auto simp: processModelAnimations_def r bindE_def Let_def split: option.splits)
qed

lemma loads_vertical:
  "\<exists>wd'. startupPlayerLoaded cs wd = Inr wd' \<and> vertical wd' = vertical wd"
  "\<exists>wd'. startupEnemyLoaded cs wd = Inr wd' \<and> vertical wd' = vertical wd"
  "vertical (fst (loadCustomModel wd)) = vertical wd"
  "\<exists>wd'. customPlayerLoaded old cs wd = Inr wd' \<and> vertical wd' = vertical wd"
  "\<exists>wd'. customEnemyLoaded old cs wd = Inr wd' \<and> vertical wd' = vertical wd"
proof -
  define wp where "wp = wd\<lparr>playerModel := Some (placedModel (playerState wd)),
                            playerMixer := Some (AnimationMixer Player)\<rparr>"
  have "info_mixer Player wp \<noteq> None" "vertical wp = vertical wd"
    by (simp_all add: wp_def info_mixer_def vertical_def)
  then show "\<exists>wd'. startupPlayerLoaded cs wd = Inr wd' \<and> vertical wd' = vertical wd"
    using loadCallback_forEach_total [of Player wp cs]
    by (auto simp: startupPlayerLoaded_def Let_def wp_def [symmetric] bindE_def)
  define we where "we = wd\<lparr>enemyModel := Some (placedModel (enemyState wd)),
                            enemyMixer := Some (AnimationMixer Enemy)\<rparr>"
  have "info_mixer Enemy we \<noteq> None" "vertical we = vertical wd"
    by (simp_all add: we_def info_mixer_def vertical_def)
  then show "\<exists>wd'. startupEnemyLoaded cs wd = Inr wd' \<and> vertical wd' = vertical wd"
    using loadCallback_forEach_total [of Enemy we cs]
    by (auto simp: startupEnemyLoaded_def Let_def we_def [symmetric] bindE_def)
  show "vertical (fst (loadCustomModel wd)) = vertical wd"
    by (simp add: loadCustomModel_def vertical_def)
  define w1 where "w1 = (if old \<and> playerMixer wd \<noteq> None
                 then call (UncacheRoot Player) (call (StopAllAction Player) wd) else wd)"
  define w2 where "w2 = w1\<lparr>playerModel := Some (placedModel (playerState w1)),
                     playerState := (playerState w1)\<lparr>currentAnimation := None\<rparr>,
                     playerMixer := Some (AnimationMixer Player)\<rparr>"
  have "vertical w1 = vertical wd" by (simp add: w1_def)
  then have "info_mixer Player w2 \<noteq> None" "vertical w2 = vertical wd"
    by (simp_all add: w2_def info_mixer_def vertical_def)
  moreover have "customPlayerLoaded old cs wd = processModelAnimations cs Player w2"
    by (simp add: customPlayerLoaded_def Let_def w2_def w1_def)
  ultimately show "\<exists>wd'. customPlayerLoaded old cs wd = Inr wd' \<and> vertical wd' = vertical wd"
    using processModelAnimations_total [of Player w2 cs] by simp
  define e1 where "e1 = (if old \<and> enemyMixer wd \<noteq> None
                 then call (UncacheRoot Enemy) (call (StopAllAction Enemy) wd) else wd)"
  define e2 where "e2 = e1\<lparr>enemyModel := Some (placedModel (enemyState e1)),
                     enemyState := (enemyState e1)\<lparr>currentAnimation := None\<rparr>,
                     enemyMixer := Some (AnimationMixer Enemy)\<rparr>"
  have "vertical e1 = vertical wd" by (simp add: e1_def)
  then have "info_mixer Enemy e2 \<noteq> None" "vertical e2 = vertical wd"
    by (simp_all add: e2_def info_mixer_def vertical_def)
  moreover have "customEnemyLoaded old cs wd = processModelAnimations cs Enemy e2"
    by (simp add: customEnemyLoaded_def Let_def e2_def e1_def)
  ultimately show "\<exists>wd'. customEnemyLoaded old cs wd = Inr wd' \<and> vertical wd' = vertical wd"
    using processModelAnimations_total [of Enemy e2 cs] by simp
qed

lemma load_consistent:
  assumes "\<exists>wd'. h = Inr wd' \<and> vertical wd' = vertical wd"
  shows "\<exists>wd'. h = Inr wd' \<and> (consistent wd \<longrightarrow> consistent wd')"
proof -
  obtain wd' where h: "h = Inr wd'" and v: "vertical wd' = vertical wd" using assms by blast
  have "consistent wd' = consistent wd" by (rule consistent_vertical [OF v])
  then show ?thesis using h by simp
qed

lemma handle_consistent:
  "\<exists>wd'. handle e wd = Inr wd' \<and> (consistent wd \<longrightarrow> consistent wd')"
proof (cases e)
  case (Frame deltaTime)
  then show ?thesis using animate_consistent by simp
next
  case (KeyDown k)
  then show ?thesis using keydown_consistent by simp
next
  case (KeyUp k)
  then show ?thesis by (simp add: keyup_consistent)
next
  case Click
  then show ?thesis using click_consistent by simp
next
  case (Timeout i)
  then show ?thesis using timeout_consistent by simp
next
  case (StartupPlayerLoaded cs)
  then show ?thesis using load_consistent [OF loads_vertical(1)] by simp
next
  case (StartupEnemyLoaded cs)
  then show ?thesis using load_consistent [OF loads_vertical(2)] by simp
next
  case LoadCustomModel
  then show ?thesis by (simp add: consistent_vertical [OF loads_vertical(3)])
next
  case (CustomPlayerLoaded old cs)
  then show ?thesis using load_consistent [OF loads_vertical(4)] by simp
next
  case (CustomEnemyLoaded old cs)
  then show ?thesis using load_consistent [OF loads_vertical(5)] by simp
qed

lemma run_consistent:
  "\<exists>wd'. run es wd = Inr wd' \<and> (consistent wd \<longrightarrow> consistent wd')"
proof (induction es arbitrary: wd)
  case Nil
  show ?case by simp
next
  case (Cons e es)
  obtain wd1 where h: "handle e wd = Inr wd1" "consistent wd \<longrightarrow> consistent wd1"
    using handle_consistent by blast
  obtain wd2 where r: "run es wd1 = Inr wd2" "consistent wd1 \<longrightarrow> consistent wd2"
    using Cons.IH by blast
  show ?case using h r by simp
qed

lemma consistent_initialWorld: "consistent initialWorld"
  by (simp add: consistent_def initialWorld_def initialPlayerState_def initialEnemyState_def)

lemma kinematics_landing:
  assumes "isJumping (playerState wd)"
    and "y (position (playerState wd)) + (y (velocity (playerState wd)) - 9.8 * deltaTime) * deltaTime \<le> 0"
  shows "y (position (playerState (kinematics deltaTime wd))) = 0"
    and "y (velocity (playerState (kinematics deltaTime wd))) = 0"
    and "\<not> isJumping (playerState (kinematics deltaTime wd))"
proof -
  define wd1 where "wd1 = updatePlayer_rotate deltaTime wd"
  have r: "isJumping (playerState wd1)" "y (position (playerState wd1)) = y (position (playerState wd))"
    "y (velocity (playerState wd1)) = y (velocity (playerState wd))"
    using assms(1) by (simp_all add: wd1_def updatePlayer_rotate_def Let_def split: option.splits)
  define wd2 where "wd2 = jumpStep deltaTime wd1"
  have j: "y (position (playerState wd2)) = 0" "y (velocity (playerState wd2)) = 0"
    "\<not> isJumping (playerState wd2)"
    using assms(2) r by (simp_all add: wd2_def jumpStep_def Let_def)
  have m: "y (position (playerState (fst (updatePlayer_move deltaTime (wd2, False, False))))) = y (position (playerState wd2))"
    "y (velocity (playerState (fst (updatePlayer_move deltaTime (wd2, False, False))))) = y (velocity (playerState wd2))"
    "isJumping (playerState (fst (updatePlayer_move deltaTime (wd2, False, False)))) = isJumping (playerState wd2)"
    by (simp_all add: updatePlayer_move_def Let_def split: option.splits)
  show "y (position (playerState (kinematics deltaTime wd))) = 0"
    and "y (velocity (playerState (kinematics deltaTime wd))) = 0"
    and "\<not> isJumping (playerState (kinematics deltaTime wd))"
    using j m by (simp_all add: kinematics_def wd1_def [symmetric] wd2_def [symmetric])
qed

lemma playerState_enemyKinematics [simp]:
  "playerState (enemyKinematics deltaTime wd) = playerState wd"
  by (simp add: enemyKinematics_def Let_def updateEnemy_cooldown_def updateEnemy_follow_def
      split: option.splits)

lemma animate_landing:
  assumes "isJumping (playerState wd)" and "playerModel wd \<noteq> None"
    and "y (position (playerState wd)) + (y (velocity (playerState wd)) - 9.8 * deltaTime) * deltaTime \<le> 0"
  shows "\<exists>wd'. animate deltaTime wd = Inr wd' \<and>
     y (position (playerState wd')) = 0 \<and> y (velocity (playerState wd')) = 0 \<and>
     \<not> isJumping (playerState wd')"
proof -
  define wd2 where "wd2 =
    (let wd1 = (if playerMixer wd \<noteq> None then call (Update Player deltaTime) wd else wd)
     in if enemyMixer wd1 \<noteq> None then call (Update Enemy deltaTime) wd1 else wd1)"
  have s: "playerState wd2 = playerState wd" "playerModel wd2 = playerModel wd"
    by (simp_all add: wd2_def Let_def call_def)
  obtain wd3 where p: "updatePlayer deltaTime wd2 = Inr wd3"
    and an: "animates (kinematics deltaTime wd2) wd3"
    using updatePlayer_animates [of wd2 deltaTime] assms(1,2) s by auto
  obtain wd4 where e: "updateEnemy deltaTime wd3 = Inr wd4"
    and ac: "acts (enemyKinematics deltaTime wd3) wd4"
    using updateEnemy_acts by blast
  have a: "animate deltaTime wd = Inr wd4"
    using p e by (simp add: animate_def wd2_def Let_def)
  have k: "y (position (playerState (kinematics deltaTime wd2))) = 0"
    "y (velocity (playerState (kinematics deltaTime wd2))) = 0"
    "\<not> isJumping (playerState (kinematics deltaTime wd2))"
    using kinematics_landing [of wd2 deltaTime] assms(1,3) s by simp_all
  have "position (playerState wd4) = position (playerState (kinematics deltaTime wd2))"
    "velocity (playerState wd4) = velocity (playerState (kinematics deltaTime wd2))"
    "isJumping (playerState wd4) = isJumping (playerState (kinematics deltaTime wd2))"
    using acts_fields(1,3,4) [OF ac] animates_playerState(1,3,4) [OF an] by simp_all
  then show ?thesis using a k by simp
qed

lemma run_snoc: "run (es @ [e]) wd = bindE (run es wd) (handle e)"
  by (induction es arbitrary: wd) (simp_all add: bindE_def split: sum.splits)

lemma run_total: "\<exists>wd'. run es wd = Inr wd'"
  using run_consistent [of es wd] by blast

lemma run_after: "run es initialWorld = Inr (after es)"
  using run_total [of es initialWorld] by (auto simp: after_def)

lemma airborne_run:
  "run [StartupPlayerLoaded [], KeyDown Key_space] initialWorld = Inr airborne"
  unfolding airborne_def by (rule run_after)

text \<open>
  Claim C7. In every world the module reaches from its initial state, by frames,
  input events, timer expiries and loads in any order, a player that is not jumping is
  at height 0 and the enemy is at height 0. In a frame in which the jump integration
  brings the height to zero or below (model loaded, player jumping), the height is
  set to 0, the vertical velocity to 0 and \<open>isJumping\<close> is cleared, all in that frame.
\<close>

theorem jump_consistency:
  "(run es initialWorld = Inr wd \<longrightarrow> consistent wd) \<and>
   (isJumping (playerState wd) \<and> playerModel wd \<noteq> None \<and>
    y (position (playerState wd)) + (y (velocity (playerState wd)) - 9.8 * deltaTime) * deltaTime \<le> 0 \<longrightarrow>
      (\<exists>wd'. animate deltaTime wd = Inr wd' \<and>
         y (position (playerState wd')) = 0 \<and> y (velocity (playerState wd')) = 0 \<and>
         \<not> isJumping (playerState wd')))"
  using run_consistent [of es initialWorld] consistent_initialWorld animate_landing [of wd deltaTime]
  by auto

theorem jump_consistency_witness:
  "run [StartupPlayerLoaded [], KeyDown Key_space] initialWorld = Inr airborne \<and>
   isJumping (playerState airborne) \<and> playerModel airborne \<noteq> None \<and>
   y (position (playerState airborne)) + (y (velocity (playerState airborne)) - 9.8 * 1) * 1 \<le> 0 \<and>
   consistent airborne \<and>
   (\<exists>wd'. run [StartupPlayerLoaded [], KeyDown Key_space, Frame 1] initialWorld = Inr wd' \<and>
      consistent wd' \<and> y (position (playerState wd')) = 0 \<and> \<not> isJumping (playerState wd'))"
proof -
  have st: "isJumping (playerState airborne)" "playerModel airborne \<noteq> None"
    "y (position (playerState airborne)) + (y (velocity (playerState airborne)) - 9.8 * 1) * 1 \<le> 0"
    by (simp_all add: airborne_def classify_eval keydown_def performJump_def setAnimation_def
        initialPlayerState_def)
  obtain wd' where a: "animate 1 airborne = Inr wd'"
    and l: "y (position (playerState wd')) = 0" "\<not> isJumping (playerState wd')"
    using jump_consistency [of "[]" airborne 1] st by auto
  have r: "run [StartupPlayerLoaded [], KeyDown Key_space, Frame 1] initialWorld = Inr wd'"
    using run_snoc [of "[StartupPlayerLoaded [], KeyDown Key_space]" "Frame 1" initialWorld]
      airborne_run a by simp
  show ?thesis
    using jump_consistency [of "[StartupPlayerLoaded [], KeyDown Key_space]" airborne 1]
      jump_consistency [of "[StartupPlayerLoaded [], KeyDown Key_space, Frame 1]" wd' 1]
      airborne_run st r l by auto
qed

end
